theory Spec2Isabelle
  imports Complex_Main
begin

section \<open>The live voice session hook (src/hooks/useLiveSession.ts)\<close>

text \<open>
  The hook keeps its state in React refs and two state flags and reacts to callbacks:
  \<open>connect\<close>, the channel's \<open>onopen\<close>, \<open>onmessage\<close>, \<open>onclose\<close>, \<open>onerror\<close>, the
  \<open>ended\<close> listener of a scheduled source, and \<open>disconnect\<close>. Each callback is
  modelled as a function from the session state to the new state and the list of
  effects it performs on its collaborators, in the order of the source's statements.

  Modelling decisions:
  \<^item> Times (\<open>ctx.currentTime\<close>, \<open>nextStartTimeRef\<close>, \<open>audioBuffer.duration\<close>) are JavaScript
    numbers; they are modelled as \<open>real\<close>, so rounding of the addition is not modelled.
  \<^item> Objects created by the platform (contexts, nodes, streams, the channel) are handles
    (\<open>nat\<close>); a buffer source is its handle together with the buffer assigned to it.
  \<^item> \<open>onmessage\<close> and \<open>connect\<close> are \<open>async\<close>. Each is modelled twice: as one function
    (\<open>onmessage\<close>, \<open>connect\<close>, composed by \<open>run\<close>), which is the schedule where the awaited
    promise settles before any other callback runs and \<open>connect\<close> is called through a
    closure of the current render; and split at its \<open>await\<close> (\<open>onmessage_call\<close>,
    \<open>onmessage_settled\<close>, \<open>connect_call\<close>, \<open>connect_settled\<close>, composed by \<open>occurs\<close>), where
    other callbacks run in between and the closure is the one of the last render.
  \<^item> \<open>base64ToBytes\<close> and \<open>decodeAudioData\<close> live in \<open>utils/audioUtils\<close>, which is not
    part of the sources at hand; they are parameters of the model and may throw.
  \<^item> The wall clock (\<open>Date.now()\<close>, \<open>new Date()\<close>) is a parameter: the value of the k-th
    reading made while one callback runs.
  \<^item> \<open>console.log\<close> and \<open>console.error\<close> are not modelled.
\<close>

subsection \<open>Data\<close>

datatype Role = User | Model

text \<open>\<open>Message\<close> of src/types.ts; \<open>id\<close> and \<open>text\<close> are renamed, \<open>timestamp\<close> is in ms.\<close>

record Message =
  msg_id :: string
  role :: Role
  msg_text :: string
  timestamp :: nat
  isPartial :: bool

text \<open>
  The part of \<open>LiveServerMessage\<close> that \<open>onmessage\<close> reads. An optional field is an
  \<open>option\<close>; the optional booleans \<open>interrupted\<close> and \<open>turnComplete\<close> are only tested for
  truthiness, so an absent one is \<open>False\<close>.
\<close>

record InlineData =
  data :: "string option"

record Part =
  inlineData :: "InlineData option"

record Content =
  parts :: "Part list option"

record Transcription =
  tr_text :: "string option"

record LiveServerContent =
  modelTurn :: "Content option"
  interrupted :: bool
  outputTranscription :: "Transcription option"
  inputTranscription :: "Transcription option"
  turnComplete :: bool

record LiveServerMessage =
  serverContent :: "LiveServerContent option"

record AudioBuffer =
  duration :: real

record AudioBufferSourceNode =
  node :: nat
  buffer :: AudioBuffer

datatype error = TypeError | Failure string

text \<open>What a callback does to its collaborators.\<close>

datatype effect =
    OnMessage Message
  | OnConnect
  | OnDisconnect
  | OnError string
  | SourceConnect AudioBufferSourceNode "nat option"
  | SourceStart AudioBufferSourceNode real
  | SourceStop AudioBufferSourceNode
  | TracksStop nat
  | NodeDisconnect nat
  | ContextClose nat
  | SessionThen nat
  | SessionClose nat
  | NewAudioContext nat nat
  | CreateAnalyser nat nat
  | GetUserMedia
  | LiveConnect nat
  | CreateMediaStreamSource nat nat nat
  | CreateScriptProcessor nat nat

text \<open>
  The refs and state flags of the hook. \<open>audioSourcesRef\<close> is a JavaScript \<open>Set\<close>, kept
  as the list of its members in insertion order (the order \<open>forEach\<close> visits them).
  \<open>nextHandle\<close> is the supply of fresh object identities.
\<close>

record session =
  isConnected :: bool
  isConnecting :: bool
  inputAudioContextRef :: "nat option"
  outputAudioContextRef :: "nat option"
  inputAnalyserRef :: "nat option"
  outputAnalyserRef :: "nat option"
  scriptProcessorRef :: "nat option"
  mediaStreamRef :: "nat option"
  sessionRef :: "nat option"
  nextStartTimeRef :: real
  audioSourcesRef :: "AudioBufferSourceNode list"
  currentInputTranscription :: string
  currentOutputTranscription :: string
  nextHandle :: nat

definition initial :: session where
  "initial = \<lparr> isConnected = False, isConnecting = False,
     inputAudioContextRef = None, outputAudioContextRef = None,
     inputAnalyserRef = None, outputAnalyserRef = None,
     scriptProcessorRef = None, mediaStreamRef = None, sessionRef = None,
     nextStartTimeRef = 0, audioSourcesRef = [],
     currentInputTranscription = [], currentOutputTranscription = [],
     nextHandle = 0 \<rparr>"

text \<open>The functions imported from \<open>utils/audioUtils\<close>, as parameters.\<close>

record audioUtils =
  base64ToBytes :: "string \<Rightarrow> error + nat list"
  decodeAudioData :: "nat list \<Rightarrow> error + AudioBuffer"

text \<open>What one run of \<open>onmessage\<close> reads from the platform.\<close>

record env =
  currentTime :: real
  dateNow :: "nat \<Rightarrow> nat"

subsection \<open>Helpers for JavaScript values\<close>

definition digit :: "nat \<Rightarrow> char" where
  "digit d = ''0123456789'' ! d"

text \<open>\<open>Number.prototype.toString\<close> on a non-negative integer: its decimal digits.\<close>

function toString :: "nat \<Rightarrow> string" where
  "toString n = (if n < 10 then [digit n] else toString (n div 10) @ [digit (n mod 10)])"
  by pat_completeness auto
termination
  by (relation "measure (\<lambda>n. n)") auto

declare toString.simps [simp del]

text \<open>String concatenation coerces an absent operand to the text \<open>undefined\<close>.\<close>

definition js_string :: "string option \<Rightarrow> string" where
  "js_string t = (case t of None \<Rightarrow> ''undefined'' | Some x \<Rightarrow> x)"

text \<open>\<open>Set.prototype.add\<close>: a member already present keeps its place.\<close>

definition set_add :: "'a \<Rightarrow> 'a list \<Rightarrow> 'a list" where
  "set_add x xs = (if x \<in> set xs then xs else xs @ [x])"

subsection \<open>onmessage\<close>

text \<open>
  Line 101: \<open>message.serverContent?.modelTurn?.parts[0]?.inlineData?.data\<close>. The index
  into \<open>parts\<close> is not guarded: a model turn without \<open>parts\<close> throws a TypeError.
\<close>

definition base64Audio :: "LiveServerMessage \<Rightarrow> error + string option" where
  "base64Audio m =
     (case serverContent m of
        None \<Rightarrow> Inr None
      | Some sc \<Rightarrow>
          (case modelTurn sc of
             None \<Rightarrow> Inr None
           | Some mt \<Rightarrow>
               (case parts mt of
                  None \<Rightarrow> Inl TypeError
                | Some [] \<Rightarrow> Inr None
                | Some (p # _) \<Rightarrow>
                    (case inlineData p of
                       None \<Rightarrow> Inr None
                     | Some d \<Rightarrow> Inr (data d)))))"

text \<open>
  Lines 102-127. The result carries the state reached and the effects done when an
  exception leaves the callback; \<open>nextStartTimeRef\<close> is written before the decoding.
\<close>

definition audioOutput ::
  "audioUtils \<Rightarrow> real \<Rightarrow> string option \<Rightarrow> session \<Rightarrow> session \<times> effect list \<times> error option" where
  "audioOutput U now b s =
     (case b of
        None \<Rightarrow> (s, [], None)
      | Some b64 \<Rightarrow>
          if b64 = [] \<or> outputAudioContextRef s = None then (s, [], None)
          else
            let s1 = s\<lparr>nextStartTimeRef := max (nextStartTimeRef s) now\<rparr> in
            (case base64ToBytes U b64 of
               Inl e \<Rightarrow> (s1, [], Some e)
             | Inr audioBytes \<Rightarrow>
                 (case decodeAudioData U audioBytes of
                    Inl e \<Rightarrow> (s1, [], Some e)
                  | Inr audioBuffer \<Rightarrow>
                      let source = \<lparr>node = nextHandle s1, buffer = audioBuffer\<rparr> in
                      (s1\<lparr>nextStartTimeRef := nextStartTimeRef s1 + duration audioBuffer,
                          audioSourcesRef := set_add source (audioSourcesRef s1),
                          nextHandle := Suc (nextHandle s1)\<rparr>,
                       [SourceConnect source (outputAnalyserRef s1),
                        SourceStart source (nextStartTimeRef s1)],
                       None))))"

definition is_interrupted :: "LiveServerMessage \<Rightarrow> bool" where
  "is_interrupted m = (case serverContent m of None \<Rightarrow> False | Some sc \<Rightarrow> interrupted sc)"

text \<open>
  Lines 130-137. \<open>source.stop()\<close> is inside \<open>try\<close> with an empty \<open>catch\<close>: whether it
  throws or not, the loop goes on to the next source.
\<close>

definition interruption :: "LiveServerMessage \<Rightarrow> session \<Rightarrow> session \<times> effect list" where
  "interruption m s =
     (if is_interrupted m
      then (s\<lparr>audioSourcesRef := [], nextStartTimeRef := 0\<rparr>, map SourceStop (audioSourcesRef s))
      else (s, []))"

definition mkMessage :: "(nat \<Rightarrow> nat) \<Rightarrow> nat \<Rightarrow> string \<Rightarrow> Role \<Rightarrow> string \<Rightarrow> bool \<Rightarrow> Message" where
  "mkMessage clk k suffix r t p =
     \<lparr> msg_id = toString (clk k) @ suffix, role = r, msg_text = t,
       timestamp = clk (Suc k), isPartial = p \<rparr>"

definition get_outputTranscription :: "LiveServerMessage \<Rightarrow> Transcription option" where
  "get_outputTranscription m =
     (case serverContent m of None \<Rightarrow> None | Some sc \<Rightarrow> outputTranscription sc)"

definition get_inputTranscription :: "LiveServerMessage \<Rightarrow> Transcription option" where
  "get_inputTranscription m =
     (case serverContent m of None \<Rightarrow> None | Some sc \<Rightarrow> inputTranscription sc)"

definition is_turnComplete :: "LiveServerMessage \<Rightarrow> bool" where
  "is_turnComplete m = (case serverContent m of None \<Rightarrow> False | Some sc \<Rightarrow> turnComplete sc)"

text \<open>Lines 140-158: the output fragment wins over the input fragment (\<open>else if\<close>).\<close>

definition transcription ::
  "(nat \<Rightarrow> nat) \<Rightarrow> LiveServerMessage \<Rightarrow> session \<Rightarrow> session \<times> effect list" where
  "transcription clk m s =
     (case get_outputTranscription m of
        Some tr \<Rightarrow>
          let t = currentOutputTranscription s @ js_string (tr_text tr) in
          (s\<lparr>currentOutputTranscription := t\<rparr>, [OnMessage (mkMessage clk 0 ''model'' Model t True)])
      | None \<Rightarrow>
          (case get_inputTranscription m of
             Some tr \<Rightarrow>
               let t = currentInputTranscription s @ js_string (tr_text tr) in
               (s\<lparr>currentInputTranscription := t\<rparr>, [OnMessage (mkMessage clk 0 ''user'' User t True)])
           | None \<Rightarrow> (s, [])))"

text \<open>Lines 161-183; \<open>k\<close> counts the clock readings already made in this run.\<close>

definition finalizeInput :: "(nat \<Rightarrow> nat) \<Rightarrow> nat \<Rightarrow> session \<Rightarrow> session \<times> effect list" where
  "finalizeInput clk k s =
     (if currentInputTranscription s \<noteq> []
      then (s\<lparr>currentInputTranscription := []\<rparr>,
            [OnMessage (mkMessage clk k ''user_final'' User (currentInputTranscription s) False)])
      else (s, []))"

definition finalizeOutput :: "(nat \<Rightarrow> nat) \<Rightarrow> nat \<Rightarrow> session \<Rightarrow> session \<times> effect list" where
  "finalizeOutput clk k s =
     (if currentOutputTranscription s \<noteq> []
      then (s\<lparr>currentOutputTranscription := []\<rparr>,
            [OnMessage (mkMessage clk k ''model_final'' Model (currentOutputTranscription s) False)])
      else (s, []))"

definition turnCompleted ::
  "(nat \<Rightarrow> nat) \<Rightarrow> nat \<Rightarrow> LiveServerMessage \<Rightarrow> session \<Rightarrow> session \<times> effect list" where
  "turnCompleted clk k m s =
     (if is_turnComplete m
      then
        (case finalizeInput clk k s of
           (s1, out1) \<Rightarrow>
             (case finalizeOutput clk (k + 2 * length out1) s1 of
                (s2, out2) \<Rightarrow> (s2, out1 @ out2)))
      else (s, []))"

definition onmessage ::
  "audioUtils \<Rightarrow> env \<Rightarrow> LiveServerMessage \<Rightarrow> session \<Rightarrow> session \<times> effect list \<times> error option" where
  "onmessage U E m s =
     (case base64Audio m of
        Inl e \<Rightarrow> (s, [], Some e)
      | Inr b \<Rightarrow>
          (case audioOutput U (currentTime E) b s of
             (s1, out1, Some e) \<Rightarrow> (s1, out1, Some e)
           | (s1, out1, None) \<Rightarrow>
               (case interruption m s1 of
                  (s2, out2) \<Rightarrow>
                    (case transcription (dateNow E) m s2 of
                       (s3, out3) \<Rightarrow>
                         (case turnCompleted (dateNow E) (2 * length out3) m s3 of
                            (s4, out4) \<Rightarrow> (s4, out1 @ out2 @ out3 @ out4, None))))))"

text \<open>The \<open>ended\<close> listener of a scheduled source (lines 120-122).\<close>

definition on_ended :: "AudioBufferSourceNode \<Rightarrow> session \<Rightarrow> session" where
  "on_ended source s = s\<lparr>audioSourcesRef := removeAll source (audioSourcesRef s)\<rparr>"

subsection \<open>cleanup, disconnect and the channel's close and error callbacks\<close>

definition release :: "(nat \<Rightarrow> effect) \<Rightarrow> nat option \<Rightarrow> effect list" where
  "release f r = (case r of None \<Rightarrow> [] | Some h \<Rightarrow> [f h])"

text \<open>
  Lines 220-253. Every ref is read through \<open>?.\<close>, so a null ref is skipped. On a
  stored session promise \<open>cleanup\<close> only registers a callback (\<open>SessionThen\<close>, lines
  245-249); the callback itself, \<open>session_then\<close> below, runs after \<open>cleanup\<close> has
  returned, when and if the promise resolves. The \<open>onDisconnect\<close> hook is called on
  every run. \<open>cleanup\<close> writes neither \<open>nextStartTimeRef\<close> nor \<open>audioSourcesRef\<close> nor the
  two transcript buffers.
\<close>

definition cleanup :: "session \<Rightarrow> session \<times> effect list" where
  "cleanup s =
     (s\<lparr>isConnected := False, isConnecting := False,
        mediaStreamRef := None, scriptProcessorRef := None,
        inputAudioContextRef := None, outputAudioContextRef := None,
        inputAnalyserRef := None, outputAnalyserRef := None,
        sessionRef := None\<rparr>,
      release TracksStop (mediaStreamRef s) @
      release NodeDisconnect (scriptProcessorRef s) @
      release NodeDisconnect (inputAnalyserRef s) @
      release NodeDisconnect (outputAnalyserRef s) @
      release ContextClose (inputAudioContextRef s) @
      release ContextClose (outputAudioContextRef s) @
      release SessionThen (sessionRef s) @
      [OnDisconnect])"

text \<open>
  The callback of lines 246-248: \<open>if (session.close) session.close()\<close>, with
  \<open>has_close\<close> telling whether the resolved session has a \<open>close\<close> method. What the
  \<open>close\<close> call throws is dropped by the \<open>catch\<close> that follows.
\<close>

definition session_then :: "bool \<Rightarrow> nat \<Rightarrow> effect list" where
  "session_then has_close session = (if has_close then [SessionClose session] else [])"

definition disconnect :: "session \<Rightarrow> session \<times> effect list" where
  "disconnect s = cleanup s"

definition onclose :: "session \<Rightarrow> session \<times> effect list" where
  "onclose s = cleanup s"

definition onerror :: "session \<Rightarrow> session \<times> effect list" where
  "onerror s = (case cleanup s of (s1, out) \<Rightarrow> (s1, OnError ''Connection error'' # out))"

subsection \<open>connect and the channel's open callback\<close>

text \<open>What \<open>connect\<close> reads from the platform: the credential and the microphone.\<close>

record connect_env =
  apiKey :: "string option"
  userMedia :: "error + unit"

definition message :: "error \<Rightarrow> string" where
  "message e = (case e of TypeError \<Rightarrow> ''TypeError'' | Failure t \<Rightarrow> t)"

text \<open>
  Lines 34-218, for a call through a closure rendered with the current flags and a
  \<open>getUserMedia\<close> that settles before any other callback runs; \<open>connect_call\<close> and
  \<open>connect_settled\<close> below are the two halves for any closure. The failures modelled
  are the missing credential and a \<open>getUserMedia\<close> rejected with an \<open>Error\<close>; both end
  in the \<open>catch\<close>, which passes the error's message to \<open>onError\<close> and runs no cleanup.
\<close>

definition connect :: "connect_env \<Rightarrow> session \<Rightarrow> session \<times> effect list" where
  "connect C s =
     (if isConnected s \<or> isConnecting s then (s, [])
      else
        let s0 = s\<lparr>isConnecting := True\<rparr> in
        if apiKey C = None \<or> apiKey C = Some []
        then (s0\<lparr>isConnecting := False\<rparr>, [OnError ''API Key not found''])
        else
          let h = nextHandle s0;
              inputCtx = h; outputCtx = h + 1; inAnalyser = h + 2; outAnalyser = h + 3;
              s1 = s0\<lparr>inputAudioContextRef := Some inputCtx,
                      outputAudioContextRef := Some outputCtx,
                      inputAnalyserRef := Some inAnalyser,
                      outputAnalyserRef := Some outAnalyser,
                      nextHandle := h + 4\<rparr>;
              out1 = [NewAudioContext inputCtx 16000, NewAudioContext outputCtx 24000,
                      CreateAnalyser inputCtx inAnalyser, CreateAnalyser outputCtx outAnalyser,
                      GetUserMedia]
          in
          (case userMedia C of
             Inl e \<Rightarrow> (s1\<lparr>isConnecting := False\<rparr>, out1 @ [OnError (message e)])
           | Inr _ \<Rightarrow>
               let stream = h + 4; sessionPromise = h + 5 in
               (s1\<lparr>mediaStreamRef := Some stream, sessionRef := Some sessionPromise,
                   nextHandle := h + 6\<rparr>,
                out1 @ [LiveConnect sessionPromise])))"

text \<open>
  Lines 71-98. The callback uses the context and the stream its \<open>connect\<close> created
  (captured variables, not the refs).
\<close>

definition onopen :: "nat \<Rightarrow> nat \<Rightarrow> session \<Rightarrow> session \<times> effect list" where
  "onopen inputCtx stream s =
     (let source = nextHandle s; processor = nextHandle s + 1 in
      (s\<lparr>isConnected := True, isConnecting := False,
         scriptProcessorRef := Some processor, nextHandle := nextHandle s + 2\<rparr>,
       [OnConnect, CreateMediaStreamSource inputCtx stream source,
        CreateScriptProcessor inputCtx processor]))"

subsection \<open>Runs of the session\<close>

datatype event =
    Connect connect_env
  | Open nat nat
  | Inbound env LiveServerMessage
  | SourceEnded AudioBufferSourceNode
  | Close
  | ChannelError
  | Disconnect

definition step :: "audioUtils \<Rightarrow> event \<Rightarrow> session \<Rightarrow> session \<times> effect list" where
  "step U ev s =
     (case ev of
        Connect C \<Rightarrow> connect C s
      | Open inputCtx stream \<Rightarrow> onopen inputCtx stream s
      | Inbound E m \<Rightarrow> (case onmessage U E m s of (s1, out, _) \<Rightarrow> (s1, out))
      | SourceEnded source \<Rightarrow> (on_ended source s, [])
      | Close \<Rightarrow> onclose s
      | ChannelError \<Rightarrow> onerror s
      | Disconnect \<Rightarrow> disconnect s)"

text \<open>
  \<open>run\<close> composes whole callbacks: these are the schedules in which every awaited
  promise settles before the next callback is delivered and \<open>connect\<close> is called through
  a closure of the current render. The schedules in which callbacks fall between the
  two halves of \<open>onmessage\<close> or \<open>connect\<close> are those of \<open>occurs\<close> below. An exception that
  leaves \<open>onmessage\<close> rejects the promise of that one call; the next event is delivered
  to the state it left.
\<close>

fun run :: "audioUtils \<Rightarrow> session \<Rightarrow> event list \<Rightarrow> session \<times> effect list" where
  "run U s [] = (s, [])"
| "run U s (ev # evs) =
     (case step U ev s of
        (s1, out1) \<Rightarrow> (case run U s1 evs of (s2, out2) \<Rightarrow> (s2, out1 @ out2)))"

definition interrupting :: "event \<Rightarrow> bool" where
  "interrupting ev = (case ev of Inbound E m \<Rightarrow> is_interrupted m | _ \<Rightarrow> False)"

text \<open>The chunks a trace schedules: start time and duration, in the order of the calls.\<close>

fun scheduled :: "effect list \<Rightarrow> (real \<times> real) list" where
  "scheduled [] = []"
| "scheduled (SourceStart source t # out) = (t, duration (buffer source)) # scheduled out"
| "scheduled (_ # out) = scheduled out"

fun emitted :: "effect list \<Rightarrow> Message list" where
  "emitted [] = []"
| "emitted (OnMessage msg # out) = msg # emitted out"
| "emitted (_ # out) = emitted out"

subsection \<open>Inputs and outcomes named in the properties\<close>

text \<open>
  The audio part of \<open>onmessage\<close> throws on exactly these inputs: the unguarded index
  into \<open>parts\<close>, or a payload that is looked at (non-empty, output context present) and
  that \<open>base64ToBytes\<close> or \<open>decodeAudioData\<close> rejects.
\<close>

definition audio_fails :: "audioUtils \<Rightarrow> LiveServerMessage \<Rightarrow> session \<Rightarrow> bool" where
  "audio_fails U m s =
     (case base64Audio m of
        Inl e \<Rightarrow> True
      | Inr None \<Rightarrow> False
      | Inr (Some b64) \<Rightarrow>
          b64 \<noteq> [] \<and> outputAudioContextRef s \<noteq> None \<and>
          (case base64ToBytes U b64 of
             Inl e \<Rightarrow> True
           | Inr audioBytes \<Rightarrow> (case decodeAudioData U audioBytes of Inl e \<Rightarrow> True | Inr b \<Rightarrow> False)))"

text \<open>The three parts of \<open>onmessage\<close> that follow the audio part, composed.\<close>

definition after_audio ::
  "(nat \<Rightarrow> nat) \<Rightarrow> LiveServerMessage \<Rightarrow> session \<Rightarrow> session \<times> effect list" where
  "after_audio clk m s1 =
     (case interruption m s1 of
        (s2, out2) \<Rightarrow>
          (case transcription clk m s2 of
             (s3, out3) \<Rightarrow>
               (case turnCompleted clk (2 * length out3) m s3 of
                  (s4, out4) \<Rightarrow> (s4, out2 @ out3 @ out4))))"

text \<open>
  The events of the channel, as messages: one transcription fragment for a role, the
  turn-complete signal alone, one audio payload, and the interruption signal alone.
\<close>

definition fragment :: "Role \<Rightarrow> string \<Rightarrow> LiveServerMessage" where
  "fragment r t =
     \<lparr>serverContent = Some \<lparr>modelTurn = None, interrupted = False,
        outputTranscription = (if r = Model then Some \<lparr>tr_text = Some t\<rparr> else None),
        inputTranscription = (if r = User then Some \<lparr>tr_text = Some t\<rparr> else None),
        turnComplete = False\<rparr>\<rparr>"

definition turn_complete :: "LiveServerMessage" where
  "turn_complete = \<lparr>serverContent = Some \<lparr>modelTurn = None, interrupted = False,
     outputTranscription = None, inputTranscription = None, turnComplete = True\<rparr>\<rparr>"

definition audio_chunk :: "string \<Rightarrow> LiveServerMessage" where
  "audio_chunk b64 =
     \<lparr>serverContent = Some \<lparr>modelTurn = Some \<lparr>parts = Some [\<lparr>inlineData = Some \<lparr>data = Some b64\<rparr>\<rparr>]\<rparr>,
        interrupted = False, outputTranscription = None, inputTranscription = None,
        turnComplete = False\<rparr>\<rparr>"

definition interruption_only :: "LiveServerMessage \<Rightarrow> bool" where
  "interruption_only m =
     (case serverContent m of
        None \<Rightarrow> False
      | Some sc \<Rightarrow> interrupted sc \<and> modelTurn sc = None \<and> outputTranscription sc = None \<and>
          inputTranscription sc = None \<and> \<not> turnComplete sc)"

text \<open>Concrete collaborators for the examples.\<close>

definition U0 :: audioUtils where
  "U0 = \<lparr> base64ToBytes = (\<lambda>b64. Inr []), decodeAudioData = (\<lambda>bytes. Inr \<lparr>duration = 1\<rparr>) \<rparr>"

definition E0 :: env where
  "E0 = \<lparr> currentTime = 0, dateNow = (\<lambda>k. 1700000000000) \<rparr>"

text \<open>
  A session after a successful \<open>connect\<close> and \<open>onopen\<close>, the same session while a
  seven-second chunk is queued behind twelve seconds of audio, a decoder that rejects
  every payload, a platform whose output clock reads 5, and a working microphone.
\<close>

definition active :: session where
  "active = initial\<lparr> isConnected := True,
     inputAudioContextRef := Some 0, outputAudioContextRef := Some 1,
     inputAnalyserRef := Some 2, outputAnalyserRef := Some 3,
     scriptProcessorRef := Some 7, mediaStreamRef := Some 4, sessionRef := Some 5,
     nextHandle := 8 \<rparr>"

definition C0 :: connect_env where
  "C0 = \<lparr> apiKey = Some ''key'', userMedia = Inr () \<rparr>"

definition U_reject :: audioUtils where
  "U_reject = \<lparr> base64ToBytes = (\<lambda>b64. Inr []),
                 decodeAudioData = (\<lambda>bytes. Inl (Failure ''decode'')) \<rparr>"

definition E5 :: env where
  "E5 = \<lparr> currentTime = 5, dateNow = (\<lambda>k. 1700000000000) \<rparr>"

definition playing :: session where
  "playing = active\<lparr> nextStartTimeRef := 12,
     audioSourcesRef := [\<lparr>node = 8, buffer = \<lparr>duration = 7\<rparr>\<rparr>], nextHandle := 9 \<rparr>"

definition interrupted_signal :: LiveServerMessage where
  "interrupted_signal =
     \<lparr>serverContent = Some \<lparr>modelTurn = None, interrupted = True,
        outputTranscription = None, inputTranscription = None, turnComplete = False\<rparr>\<rparr>"


subsection \<open>The callbacks at their suspension points\<close>

text \<open>
  \<open>onmessage\<close> runs synchronously up to \<open>await decodeAudioData\<close> (line 107) and is
  resumed when the decoding settles; callbacks delivered in between see the state the
  first half left. A message without a payload to decode reaches no \<open>await\<close> and runs
  to its end in one piece. \<open>onmessage_call\<close> is lines 101-107 (and the rest for such a
  message), \<open>onmessage_settled\<close> is lines 107-184; it reads the refs as they are when it
  resumes. Lemma \<open>onmessage_split\<close> shows that \<open>onmessage\<close> is the one followed at once by
  the other.
\<close>

datatype progress = Finished "error option" | Awaiting "nat list"

definition onmessage_call ::
  "audioUtils \<Rightarrow> env \<Rightarrow> LiveServerMessage \<Rightarrow> session \<Rightarrow> session \<times> effect list \<times> progress" where
  "onmessage_call U E m s =
     (case base64Audio m of
        Inl e \<Rightarrow> (s, [], Finished (Some e))
      | Inr None \<Rightarrow>
          (case after_audio (dateNow E) m s of (s4, out) \<Rightarrow> (s4, out, Finished None))
      | Inr (Some b64) \<Rightarrow>
          if b64 = [] \<or> outputAudioContextRef s = None
          then (case after_audio (dateNow E) m s of (s4, out) \<Rightarrow> (s4, out, Finished None))
          else
            let s1 = s\<lparr>nextStartTimeRef := max (nextStartTimeRef s) (currentTime E)\<rparr> in
            (case base64ToBytes U b64 of
               Inl e \<Rightarrow> (s1, [], Finished (Some e))
             | Inr audioBytes \<Rightarrow> (s1, [], Awaiting audioBytes)))"

definition onmessage_settled ::
  "audioUtils \<Rightarrow> env \<Rightarrow> LiveServerMessage \<Rightarrow> nat list \<Rightarrow> session \<Rightarrow>
     session \<times> effect list \<times> error option" where
  "onmessage_settled U E m audioBytes s =
     (case decodeAudioData U audioBytes of
        Inl e \<Rightarrow> (s, [], Some e)
      | Inr audioBuffer \<Rightarrow>
          let source = \<lparr>node = nextHandle s, buffer = audioBuffer\<rparr>;
              s1 = s\<lparr>nextStartTimeRef := nextStartTimeRef s + duration audioBuffer,
                     audioSourcesRef := set_add source (audioSourcesRef s),
                     nextHandle := Suc (nextHandle s)\<rparr>
          in
          (case after_audio (dateNow E) m s1 of
             (s4, out) \<Rightarrow>
               (s4,
                [SourceConnect source (outputAnalyserRef s),
                 SourceStart source (nextStartTimeRef s)] @ out,
                None)))"

text \<open>
  \<open>connect\<close> tests the two flags its closure was created with (line 35; the closure is
  rebuilt when a render sees new flags, line 218), not the flags as they are when it is
  called, and is suspended at \<open>await getUserMedia\<close> (line 65). \<open>connect_call\<close> is lines
  35-65 and tells whether it reached the \<open>await\<close>; \<open>connect_settled\<close> is lines 65-217.
  Lemma \<open>connect_split\<close> relates them to \<open>connect\<close>.
\<close>

definition connect_call ::
  "bool \<Rightarrow> bool \<Rightarrow> string option \<Rightarrow> session \<Rightarrow> session \<times> effect list \<times> bool" where
  "connect_call closed_isConnected closed_isConnecting key s =
     (if closed_isConnected \<or> closed_isConnecting then (s, [], False)
      else
        let s0 = s\<lparr>isConnecting := True\<rparr> in
        if key = None \<or> key = Some []
        then (s0\<lparr>isConnecting := False\<rparr>, [OnError ''API Key not found''], False)
        else
          let h = nextHandle s0;
              inputCtx = h; outputCtx = h + 1; inAnalyser = h + 2; outAnalyser = h + 3
          in
          (s0\<lparr>inputAudioContextRef := Some inputCtx,
              outputAudioContextRef := Some outputCtx,
              inputAnalyserRef := Some inAnalyser,
              outputAnalyserRef := Some outAnalyser,
              nextHandle := h + 4\<rparr>,
           [NewAudioContext inputCtx 16000, NewAudioContext outputCtx 24000,
            CreateAnalyser inputCtx inAnalyser, CreateAnalyser outputCtx outAnalyser,
            GetUserMedia],
           True))"

definition connect_settled :: "error + unit \<Rightarrow> session \<Rightarrow> session \<times> effect list" where
  "connect_settled granted s =
     (case granted of
        Inl e \<Rightarrow> (s\<lparr>isConnecting := False\<rparr>, [OnError (message e)])
      | Inr _ \<Rightarrow>
          let stream = nextHandle s; sessionPromise = nextHandle s + 1 in
          (s\<lparr>mediaStreamRef := Some stream, sessionRef := Some sessionPromise,
             nextHandle := nextHandle s + 2\<rparr>,
           [LiveConnect sessionPromise]))"

text \<open>
  The hook between callbacks: the refs and flags, the flags that the \<open>connect\<close> handed
  out by the last render closed over, the \<open>connect\<close> calls waiting for the microphone,
  the \<open>onmessage\<close> calls waiting for a decoding (message and bytes), and the session
  promises on which \<open>cleanup\<close> has registered its closing callback.
\<close>

record hook =
  refs :: session
  closed_over_isConnected :: bool
  closed_over_isConnecting :: bool
  media_pending :: nat
  decode_pending :: "(LiveServerMessage \<times> nat list) list"
  close_chained :: "nat list"

definition hook_of :: "session \<Rightarrow> hook" where
  "hook_of s = \<lparr> refs = s, closed_over_isConnected = isConnected s,
     closed_over_isConnecting = isConnecting s, media_pending = 0, decode_pending = [],
     close_chained = [] \<rparr>"

text \<open>
  What can happen to the hook, one at a time: a call of \<open>connect\<close> or \<open>disconnect\<close>, a
  render, a callback of the channel or of a source, and the settling of an awaited
  promise. \<open>DecodeSettled E i\<close> resumes the i-th waiting \<open>onmessage\<close>; \<open>SessionResolved\<close>
  runs the callback registered by \<open>cleanup\<close>.
\<close>

datatype occurrence =
    ConnectCall "string option"
  | MediaSettled "error + unit"
  | Rendered
  | ChannelOpened nat nat
  | MessageArrived env LiveServerMessage
  | DecodeSettled env nat
  | SourceFinished AudioBufferSourceNode
  | SessionResolved nat bool
  | ChannelClosed
  | ChannelFailed
  | DisconnectCall

definition torn_down :: "hook \<Rightarrow> session \<times> effect list \<Rightarrow> hook \<times> effect list" where
  "torn_down h r =
     (h\<lparr>refs := fst r,
        close_chained := close_chained h @
          (case sessionRef (refs h) of None \<Rightarrow> [] | Some p \<Rightarrow> [p])\<rparr>,
      snd r)"

definition occur :: "audioUtils \<Rightarrow> occurrence \<Rightarrow> hook \<Rightarrow> hook \<times> effect list" where
  "occur U oc h =
     (case oc of
        ConnectCall key \<Rightarrow>
          (case connect_call (closed_over_isConnected h) (closed_over_isConnecting h) key (refs h) of
             (s1, out, suspended) \<Rightarrow>
               (h\<lparr>refs := s1,
                   media_pending := media_pending h + (if suspended then 1 else 0)\<rparr>, out))
      | MediaSettled granted \<Rightarrow>
          if media_pending h = 0 then (h, [])
          else
            (case connect_settled granted (refs h) of
               (s1, out) \<Rightarrow> (h\<lparr>refs := s1, media_pending := media_pending h - 1\<rparr>, out))
      | Rendered \<Rightarrow>
          (h\<lparr>closed_over_isConnected := isConnected (refs h),
              closed_over_isConnecting := isConnecting (refs h)\<rparr>, [])
      | ChannelOpened inputCtx stream \<Rightarrow>
          (case onopen inputCtx stream (refs h) of (s1, out) \<Rightarrow> (h\<lparr>refs := s1\<rparr>, out))
      | MessageArrived E m \<Rightarrow>
          (case onmessage_call U E m (refs h) of
             (s1, out, Finished err) \<Rightarrow> (h\<lparr>refs := s1\<rparr>, out)
           | (s1, out, Awaiting audioBytes) \<Rightarrow>
               (h\<lparr>refs := s1, decode_pending := decode_pending h @ [(m, audioBytes)]\<rparr>, out))
      | DecodeSettled E i \<Rightarrow>
          if i < length (decode_pending h)
          then
            (case onmessage_settled U E (fst (decode_pending h ! i)) (snd (decode_pending h ! i))
                    (refs h) of
               (s1, out, err) \<Rightarrow>
                 (h\<lparr>refs := s1,
                     decode_pending := take i (decode_pending h) @ drop (Suc i) (decode_pending h)\<rparr>,
                  out))
          else (h, [])
      | SourceFinished source \<Rightarrow> (h\<lparr>refs := on_ended source (refs h)\<rparr>, [])
      | SessionResolved p has_close \<Rightarrow>
          if p \<in> set (close_chained h)
          then (h\<lparr>close_chained := removeAll p (close_chained h)\<rparr>, session_then has_close p)
          else (h, [])
      | ChannelClosed \<Rightarrow> torn_down h (onclose (refs h))
      | ChannelFailed \<Rightarrow> torn_down h (onerror (refs h))
      | DisconnectCall \<Rightarrow> torn_down h (disconnect (refs h)))"

fun occurs :: "audioUtils \<Rightarrow> hook \<Rightarrow> occurrence list \<Rightarrow> hook \<times> effect list" where
  "occurs U h [] = (h, [])"
| "occurs U h (oc # ocs) =
     (case occur U oc h of
        (h1, out1) \<Rightarrow> (case occurs U h1 ocs of (h2, out2) \<Rightarrow> (h2, out1 @ out2)))"

text \<open>
  Two more messages: the interruption signal on a model turn without \<open>parts\<close>, and the
  interruption signal together with an audio payload.
\<close>

definition interrupted_without_parts :: LiveServerMessage where
  "interrupted_without_parts =
     \<lparr>serverContent = Some \<lparr>modelTurn = Some \<lparr>parts = None\<rparr>, interrupted = True,
        outputTranscription = None, inputTranscription = None, turnComplete = False\<rparr>\<rparr>"


text \<open>The channels a trace opens, in order.\<close>

fun opened :: "effect list \<Rightarrow> nat list" where
  "opened [] = []"
| "opened (LiveConnect p # out) = p # opened out"
| "opened (_ # out) = opened out"

subsection \<open>Notions used in the statements\<close>

text \<open>Two scheduled chunks, given as start time and duration, do not overlap.\<close>

definition no_overlap :: "real \<times> real \<Rightarrow> real \<times> real \<Rightarrow> bool" where
  "no_overlap a b \<longleftrightarrow> fst a + snd a \<le> fst b"

text \<open>
  What one callback may do to the playback clock when it does not interrupt: schedule
  nothing and not move \<open>nextStartTimeRef\<close> back, or schedule one chunk no earlier than
  \<open>nextStartTimeRef\<close> and leave \<open>nextStartTimeRef\<close> at the end of that chunk.
\<close>

definition clock_step :: "audioUtils \<Rightarrow> session \<Rightarrow> session \<Rightarrow> effect list \<Rightarrow> bool" where
  "clock_step U s s1 out \<longleftrightarrow>
     (scheduled out = [] \<and> nextStartTimeRef s \<le> nextStartTimeRef s1) \<or>
     (\<exists>t d. scheduled out = [(t, d)] \<and> nextStartTimeRef s \<le> t \<and>
        nextStartTimeRef s1 = t + d \<and>
        (\<exists>bytes buf. decodeAudioData U bytes = Inr buf \<and> d = duration buf))"

text \<open>The session with its playback queue and playback clock blanked out.\<close>

definition forget_playback :: "session \<Rightarrow> session" where
  "forget_playback s = s\<lparr>audioSourcesRef := [], nextStartTimeRef := 0\<rparr>"

subsection \<open>The transport blob encoder\<close>

text \<open>
  \<open>createBlob\<close> is imported from \<open>utils/audioUtils\<close> (line 3) and called on every captured
  frame (line 88); its file is not among the sources. The definitions of this
  subsection follow sections 3, 4.3 and 8 of the specification instead. Samples are
  reals. The specification fixes neither the conversion to an integer nor the full
  scale, so both are parameters: \<open>rnd\<close> and \<open>scale\<close>.
\<close>

text \<open>
  Modelled from the spec: a conversion of a scaled sample to an integer, which
  \<open>createBlob\<close> (missing) must contain; any conversion that is off by less than one unit
  (truncation, floor, ceiling, rounding to nearest).
\<close>

definition is_rounding :: "(real \<Rightarrow> int) \<Rightarrow> bool" where
  "is_rounding rnd \<longleftrightarrow> (\<forall>y. \<bar>real_of_int (rnd y) - y\<bar> < 1)"

text \<open>
  Modelled from the spec: the sample conversion of \<open>createBlob\<close> (missing), "16-bit
  signed PCM samples (clamped to the representable range)".
\<close>

definition pcm16 :: "(real \<Rightarrow> int) \<Rightarrow> nat \<Rightarrow> real \<Rightarrow> int" where
  "pcm16 rnd scale x = max (- 32768) (min 32767 (rnd (x * real scale)))"

text \<open>
  Modelled from the spec: the byte layout of \<open>createBlob\<close> (missing), "16-bit PCM,
  little-endian": the low byte, then the high byte, of the two's complement value.
\<close>

definition le_bytes :: "int \<Rightarrow> nat list" where
  "le_bytes p = [nat (p mod 256), nat (p div 256 mod 256)]"

text \<open>
  Modelled from the spec: the \<open>TransportBlob\<close> that \<open>createBlob\<close> (missing) returns, the
  bytes "tagged with the PCM format and input sample rate" (16 kHz). The binary-safe
  text encoding of the bytes is not modelled.
\<close>

record TransportBlob =
  blob_data :: "nat list"
  blob_rate :: nat

text \<open>
  Modelled from the spec: \<open>createBlob\<close> (missing), the samples converted one by one "in
  the frame's original order".
\<close>

definition createBlob :: "(real \<Rightarrow> int) \<Rightarrow> nat \<Rightarrow> real list \<Rightarrow> TransportBlob" where
  "createBlob rnd scale samples =
     \<lparr> blob_data = concat (map (\<lambda>x. le_bytes (pcm16 rnd scale x)) samples),
       blob_rate = 16000 \<rparr>"

text \<open>
  Modelled from the spec: the "reference decoder" of the round-trip property (no such
  function is in the sources): little-endian two's complement pairs, divided by the
  full scale.
\<close>

definition s16 :: "int \<Rightarrow> int" where
  "s16 v = (if 32768 \<le> v then v - 65536 else v)"

fun from_le :: "nat list \<Rightarrow> int list" where
  "from_le (lo # hi # bs) = s16 (int lo + 256 * int hi) # from_le bs"
| "from_le _ = []"

definition decodePcm16 :: "nat \<Rightarrow> TransportBlob \<Rightarrow> real list" where
  "decodePcm16 scale blob = map (\<lambda>p. real_of_int p / real scale) (from_le (blob_data blob))"

section \<open>Properties\<close>

subsection \<open>Auxiliary facts\<close>

lemma step_Inbound:
  "step U (Inbound E m) s = (fst (onmessage U E m s), fst (snd (onmessage U E m s)))"
  by (simp add: step_def split: prod.splits)


lemma audioOutput_error:
  "snd (snd (audioOutput U now b s)) \<noteq> None \<longleftrightarrow>
     (case b of
        None \<Rightarrow> False
      | Some b64 \<Rightarrow>
          b64 \<noteq> [] \<and> outputAudioContextRef s \<noteq> None \<and>
          (case base64ToBytes U b64 of
             Inl e \<Rightarrow> True
           | Inr audioBytes \<Rightarrow> (case decodeAudioData U audioBytes of Inl e \<Rightarrow> True | Inr b \<Rightarrow> False)))"
  by (cases b; cases "base64ToBytes U (the b)";
      cases "decodeAudioData U (projr (base64ToBytes U (the b)))")
    (auto simp: audioOutput_def Let_def)

lemma onmessage_ok:
  assumes "\<not> audio_fails U m s"
  shows "\<exists>b s1 out1. base64Audio m = Inr b \<and> audioOutput U (currentTime E) b s = (s1, out1, None) \<and>
     onmessage U E m s =
       (fst (after_audio (dateNow E) m s1), out1 @ snd (after_audio (dateNow E) m s1), None)"
proof (cases "base64Audio m")
  case (Inl e)
  with assms show ?thesis by (simp add: audio_fails_def)
next
  case (Inr b)
  obtain s1 out1 err where a: "audioOutput U (currentTime E) b s = (s1, out1, err)"
    by (cases "audioOutput U (currentTime E) b s") auto
  have "err = None"
    using assms Inr a audioOutput_error [of U "currentTime E" b s]
    by (simp add: audio_fails_def)
  with Inr a show ?thesis
    by (simp add: onmessage_def after_audio_def split: prod.splits)
qed

lemma audioOutput_transcripts:
  "audioOutput U now b s = (s1, out1, err) \<Longrightarrow>
     currentInputTranscription s1 = currentInputTranscription s \<and>
     currentOutputTranscription s1 = currentOutputTranscription s \<and> emitted out1 = []"
  by (cases b; cases "base64ToBytes U (the b)";
      cases "decodeAudioData U (projr (base64ToBytes U (the b)))")
    (auto simp: audioOutput_def Let_def split: if_split_asm)

lemma emitted_append: "emitted (xs @ ys) = emitted xs @ emitted ys"
  by (induction xs rule: emitted.induct) auto

lemma scheduled_append: "scheduled (xs @ ys) = scheduled xs @ scheduled ys"
  by (induction xs rule: scheduled.induct) auto

lemma emitted_SourceStop: "emitted (map SourceStop xs) = []"
  by (induction xs) auto

lemma scheduled_SourceStop: "scheduled (map SourceStop xs) = []"
  by (induction xs) auto

lemma onmessage_model_fragment:
  "onmessage U E (fragment Model t) s =
     (s\<lparr>currentOutputTranscription := currentOutputTranscription s @ t\<rparr>,
      [OnMessage (mkMessage (dateNow E) 0 ''model'' Model (currentOutputTranscription s @ t) True)],
      None)"
  by (simp add: fragment_def onmessage_def base64Audio_def audioOutput_def
    interruption_def is_interrupted_def transcription_def get_outputTranscription_def
    turnCompleted_def is_turnComplete_def js_string_def Let_def)

lemma onmessage_turn_complete:
  "onmessage U E turn_complete s =
     (s\<lparr>currentInputTranscription := [], currentOutputTranscription := []\<rparr>,
      (if currentInputTranscription s \<noteq> []
       then [OnMessage (mkMessage (dateNow E) 0 ''user_final'' User (currentInputTranscription s) False)]
       else []) @
      (if currentOutputTranscription s \<noteq> []
       then [OnMessage (mkMessage (dateNow E)
               (if currentInputTranscription s \<noteq> [] then 2 else 0)
               ''model_final'' Model (currentOutputTranscription s) False)]
       else []),
      None)"
  by (simp add: turn_complete_def onmessage_def base64Audio_def audioOutput_def
    interruption_def is_interrupted_def transcription_def get_outputTranscription_def
    get_inputTranscription_def finalizeInput_def finalizeOutput_def
    turnCompleted_def is_turnComplete_def numeral_2_eq_2)

lemma isPartial_mkMessage [simp]: "isPartial (mkMessage clk k suffix r t p) = p"
  by (simp add: mkMessage_def)

lemma role_mkMessage [simp]: "role (mkMessage clk k suffix r t p) = r"
  by (simp add: mkMessage_def)

lemma after_audio_output_fragment:
  assumes "get_outputTranscription m = Some tr"
  shows "currentOutputTranscription (fst (after_audio clk m s)) =
           (if is_turnComplete m then [] else currentOutputTranscription s @ js_string (tr_text tr))
    \<and> filter isPartial (emitted (snd (after_audio clk m s))) =
           [mkMessage clk 0 ''model'' Model (currentOutputTranscription s @ js_string (tr_text tr)) True]"
  using assms
  by (auto simp: after_audio_def interruption_def transcription_def turnCompleted_def Let_def
      finalizeInput_def finalizeOutput_def
      emitted_append emitted_SourceStop split: prod.splits if_splits)

lemma after_audio_input_fragment:
  assumes "get_outputTranscription m = None" and "get_inputTranscription m = Some tr"
  shows "currentInputTranscription (fst (after_audio clk m s)) =
           (if is_turnComplete m then [] else currentInputTranscription s @ js_string (tr_text tr))
    \<and> filter isPartial (emitted (snd (after_audio clk m s))) =
           [mkMessage clk 0 ''user'' User (currentInputTranscription s @ js_string (tr_text tr)) True]"
  using assms
  by (auto simp: after_audio_def interruption_def transcription_def turnCompleted_def Let_def
      finalizeInput_def finalizeOutput_def
      emitted_append emitted_SourceStop split: prod.splits if_splits)

lemma after_audio_turn_complete:
  assumes "get_outputTranscription m = None" and "get_inputTranscription m = None"
    and "is_turnComplete m"
  shows "currentInputTranscription (fst (after_audio clk m s)) = []
    \<and> currentOutputTranscription (fst (after_audio clk m s)) = []
    \<and> emitted (snd (after_audio clk m s)) =
      (if currentInputTranscription s \<noteq> []
       then [mkMessage clk 0 ''user_final'' User (currentInputTranscription s) False]
       else []) @
      (if currentOutputTranscription s \<noteq> []
       then [mkMessage clk (if currentInputTranscription s \<noteq> [] then 2 else 0)
               ''model_final'' Model (currentOutputTranscription s) False]
       else [])"
  using assms
  by (auto simp: after_audio_def interruption_def transcription_def turnCompleted_def Let_def
      finalizeInput_def finalizeOutput_def numeral_2_eq_2
      emitted_append emitted_SourceStop split: prod.splits if_splits)

lemma onmessage_transcripts:
  assumes "\<not> audio_fails U m s"
  shows "\<exists>s1. currentInputTranscription s1 = currentInputTranscription s \<and>
     currentOutputTranscription s1 = currentOutputTranscription s \<and>
     fst (onmessage U E m s) = fst (after_audio (dateNow E) m s1) \<and>
     emitted (fst (snd (onmessage U E m s))) = emitted (snd (after_audio (dateNow E) m s1))"
proof -
  from onmessage_ok [OF assms, of E] obtain b s1 out1 where
    a: "audioOutput U (currentTime E) b s = (s1, out1, None)" and
    o: "onmessage U E m s =
       (fst (after_audio (dateNow E) m s1), out1 @ snd (after_audio (dateNow E) m s1), None)"
    by blast
  from audioOutput_transcripts [OF a] o show ?thesis
    by (auto simp: emitted_append)
qed

lemma audio_fails_fragment [simp]: "\<not> audio_fails U (fragment r t) s"
  by (simp add: audio_fails_def fragment_def base64Audio_def)

lemma audio_fails_turn_complete [simp]: "\<not> audio_fails U turn_complete s"
  by (simp add: audio_fails_def turn_complete_def base64Audio_def)

lemma get_outputTranscription_fragment [simp]:
  "get_outputTranscription (fragment r t) = (if r = Model then Some \<lparr>tr_text = Some t\<rparr> else None)"
  by (simp add: get_outputTranscription_def fragment_def)

lemma get_inputTranscription_fragment [simp]:
  "get_inputTranscription (fragment r t) = (if r = User then Some \<lparr>tr_text = Some t\<rparr> else None)"
  by (simp add: get_inputTranscription_def fragment_def)

lemma is_turnComplete_fragment [simp]: "\<not> is_turnComplete (fragment r t)"
  by (simp add: is_turnComplete_def fragment_def)

lemma turn_complete_simps [simp]:
  "is_turnComplete turn_complete" "get_outputTranscription turn_complete = None"
  "get_inputTranscription turn_complete = None"
  by (simp_all add: is_turnComplete_def get_outputTranscription_def get_inputTranscription_def
      turn_complete_def)


lemma audioOutput_skip:
  "b = None \<or> b = Some [] \<or> outputAudioContextRef s = None \<Longrightarrow>
     audioOutput U now b s = (s, [], None)"
  by (auto simp: audioOutput_def split: option.splits)

lemma audioOutput_started:
  assumes "b64 \<noteq> []" and "outputAudioContextRef s \<noteq> None"
    and "base64ToBytes U b64 = Inr bytes" and "decodeAudioData U bytes = Inr buf"
  shows "audioOutput U now (Some b64) s =
     (s\<lparr>nextStartTimeRef := max (nextStartTimeRef s) now + duration buf,
        audioSourcesRef := set_add \<lparr>node = nextHandle s, buffer = buf\<rparr> (audioSourcesRef s),
        nextHandle := Suc (nextHandle s)\<rparr>,
      [SourceConnect \<lparr>node = nextHandle s, buffer = buf\<rparr> (outputAnalyserRef s),
       SourceStart \<lparr>node = nextHandle s, buffer = buf\<rparr> (max (nextStartTimeRef s) now)],
      None)"
  using assms by (simp add: audioOutput_def Let_def)

lemma audioOutput_failed:
  assumes "b64 \<noteq> []" and "outputAudioContextRef s \<noteq> None"
    and "base64ToBytes U b64 = Inl e \<or>
         (\<exists>bytes. base64ToBytes U b64 = Inr bytes \<and> decodeAudioData U bytes = Inl e)"
  shows "audioOutput U now (Some b64) s =
     (s\<lparr>nextStartTimeRef := max (nextStartTimeRef s) now\<rparr>, [], Some e)"
  using assms by (auto simp: audioOutput_def Let_def)

text \<open>What the audio part does to the playback clock, whatever its outcome.\<close>

lemma audioOutput_clock:
  assumes "audioOutput U now b s = (s1, out1, err)"
  shows "(scheduled out1 = [] \<and> nextStartTimeRef s \<le> nextStartTimeRef s1) \<or>
     (\<exists>t d. scheduled out1 = [(t, d)] \<and> nextStartTimeRef s \<le> t \<and>
        nextStartTimeRef s1 = t + d \<and>
        (\<exists>bytes buf. decodeAudioData U bytes = Inr buf \<and> d = duration buf))"
proof (cases "b = None \<or> b = Some [] \<or> outputAudioContextRef s = None")
  case True
  from audioOutput_skip [OF True, of U now] assms show ?thesis by simp
next
  case False
  then obtain b64 where b: "b = Some b64" "b64 \<noteq> []" "outputAudioContextRef s \<noteq> None"
    by (cases b) auto
  show ?thesis
  proof (cases "base64ToBytes U b64")
    case (Inl e)
    with audioOutput_failed [of b64 s U e now] b assms show ?thesis by auto
  next
    case (Inr bytes)
    show ?thesis
    proof (cases "decodeAudioData U bytes")
      case (Inl e)
      with Inr audioOutput_failed [of b64 s U e now] b assms show ?thesis by auto
    next
      case d: (Inr buf)
      from audioOutput_started [OF b(2) b(3) Inr d, of now] b assms
      have "scheduled out1 = [(max (nextStartTimeRef s) now, duration buf)]"
        and "nextStartTimeRef s1 = max (nextStartTimeRef s) now + duration buf"
        by auto
      with d show ?thesis by auto
    qed
  qed
qed

lemma audioOutput_frame:
  assumes "audioOutput U now b s = (s1, out1, err)"
  shows "outputAudioContextRef s1 = outputAudioContextRef s"
  using assms
  by (cases b; cases "base64ToBytes U (the b)";
      cases "decodeAudioData U (projr (base64ToBytes U (the b)))")
    (auto simp: audioOutput_def Let_def split: if_split_asm)

lemma after_audio_scheduled: "scheduled (snd (after_audio clk m s)) = []"
  by (auto simp: after_audio_def interruption_def transcription_def turnCompleted_def Let_def
      finalizeInput_def finalizeOutput_def scheduled_append scheduled_SourceStop
      split: prod.splits option.splits if_splits)

lemma after_audio_clock:
  "\<not> is_interrupted m \<Longrightarrow>
     nextStartTimeRef (fst (after_audio clk m s)) = nextStartTimeRef s"
  by (auto simp: after_audio_def interruption_def transcription_def turnCompleted_def Let_def
      finalizeInput_def finalizeOutput_def
      split: prod.splits option.splits if_splits)

lemma after_audio_context:
  "outputAudioContextRef (fst (after_audio clk m s)) = outputAudioContextRef s"
  by (auto simp: after_audio_def interruption_def transcription_def turnCompleted_def Let_def
      finalizeInput_def finalizeOutput_def
      split: prod.splits option.splits if_splits)


lemma onmessage_returned:
  assumes "base64Audio m = Inr b" and "audioOutput U (currentTime E) b s = (s1, out1, None)"
  shows "onmessage U E m s =
    (fst (after_audio (dateNow E) m s1), out1 @ snd (after_audio (dateNow E) m s1), None)"
  using assms by (simp add: onmessage_def after_audio_def split: prod.splits)

lemma onmessage_thrown:
  assumes "base64Audio m = Inr b" and "audioOutput U (currentTime E) b s = (s1, out1, Some e)"
  shows "onmessage U E m s = (s1, out1, Some e)"
  using assms by (simp add: onmessage_def)

text \<open>The three ways a run of \<open>onmessage\<close> ends.\<close>

lemma onmessage_cases:
  obtains (index) e where "base64Audio m = Inl e" and "onmessage U E m s = (s, [], Some e)"
  | (thrown) b s1 out1 e where "base64Audio m = Inr b"
      and "audioOutput U (currentTime E) b s = (s1, out1, Some e)"
      and "onmessage U E m s = (s1, out1, Some e)"
  | (returned) b s1 out1 where "base64Audio m = Inr b"
      and "audioOutput U (currentTime E) b s = (s1, out1, None)"
      and "onmessage U E m s =
        (fst (after_audio (dateNow E) m s1), out1 @ snd (after_audio (dateNow E) m s1), None)"
proof (cases "base64Audio m")
  case (Inl e)
  then have "onmessage U E m s = (s, [], Some e)" by (simp add: onmessage_def)
  with Inl show ?thesis by (rule index)
next
  case (Inr b)
  obtain s1 out1 err where a: "audioOutput U (currentTime E) b s = (s1, out1, err)"
    by (cases "audioOutput U (currentTime E) b s") auto
  show ?thesis
  proof (cases err)
    case None
    with Inr a have "onmessage U E m s =
        (fst (after_audio (dateNow E) m s1), out1 @ snd (after_audio (dateNow E) m s1), None)"
      by (simp add: onmessage_def after_audio_def split: prod.splits)
    with Inr a None show ?thesis by (auto intro: returned)
  next
    case (Some e)
    with Inr a have "onmessage U E m s = (s1, out1, Some e)"
      by (simp add: onmessage_def)
    with Inr a Some show ?thesis by (auto intro: thrown)
  qed
qed

lemma onmessage_clock:
  assumes "\<not> is_interrupted m"
  shows "clock_step U s (fst (onmessage U E m s)) (fst (snd (onmessage U E m s)))"
proof (cases rule: onmessage_cases [of m U E s])
  case (index e)
  then show ?thesis by (simp add: clock_step_def)
next
  case (thrown b s1 out1 e)
  with audioOutput_clock [OF thrown(2)] show ?thesis by (simp add: clock_step_def)
next
  case (returned b s1 out1)
  with audioOutput_clock [OF returned(2)] assms show ?thesis
    by (simp add: clock_step_def scheduled_append after_audio_scheduled after_audio_clock)
qed

lemma scheduled_release [simp]: "scheduled (release TracksStop r) = []"
  "scheduled (release NodeDisconnect r) = []" "scheduled (release ContextClose r) = []"
  "scheduled (release SessionThen r) = []"
  by (simp_all add: release_def split: option.splits)

lemma cleanup_clock:
  "scheduled (snd (cleanup s)) = [] \<and> nextStartTimeRef (fst (cleanup s)) = nextStartTimeRef s"
  by (simp add: cleanup_def scheduled_append)

lemma connect_clock:
  "scheduled (snd (connect C s)) = [] \<and> nextStartTimeRef (fst (connect C s)) = nextStartTimeRef s"
  by (simp add: connect_def Let_def scheduled_append split: sum.splits)

lemma onerror_eq:
  "onerror s = (fst (cleanup s), OnError ''Connection error'' # snd (cleanup s))"
  by (simp add: onerror_def split: prod.splits)

lemma step_clock:
  assumes "\<not> interrupting ev"
  shows "clock_step U s (fst (step U ev s)) (snd (step U ev s))"
proof (cases ev)
  case (Inbound E m)
  with assms have "\<not> is_interrupted m" by (simp add: interrupting_def)
  from onmessage_clock [OF this, of U s E] Inbound show ?thesis
    by (simp add: step_Inbound)
next
  case (Connect C)
  with connect_clock [of C s] show ?thesis by (simp add: step_def clock_step_def)
next
  case (Open c st)
  then show ?thesis by (simp add: step_def clock_step_def onopen_def Let_def)
next
  case (SourceEnded src)
  then show ?thesis by (simp add: step_def clock_step_def on_ended_def)
next
  case Close
  with cleanup_clock [of s] show ?thesis by (simp add: step_def clock_step_def onclose_def)
next
  case ChannelError
  with cleanup_clock [of s] show ?thesis
    by (simp add: step_def clock_step_def onerror_eq)
next
  case Disconnect
  with cleanup_clock [of s] show ?thesis by (simp add: step_def clock_step_def disconnect_def)
qed

lemma active_reachable: "fst (run U initial [Connect C0, Open 0 4]) = active"
  by (simp add: step_def connect_def onopen_def C0_def initial_def active_def Let_def)

lemma audio_chunk_simps [simp]:
  "base64Audio (audio_chunk b64) = Inr (Some b64)" "\<not> is_interrupted (audio_chunk b64)"
  by (simp_all add: audio_chunk_def base64Audio_def is_interrupted_def)

lemma onmessage_started:
  assumes "base64Audio m = Inr (Some b64)" and "b64 \<noteq> []" and "outputAudioContextRef s \<noteq> None"
    and "base64ToBytes U b64 = Inr bytes" and "decodeAudioData U bytes = Inr buf"
  shows "scheduled (fst (snd (onmessage U E m s))) =
           [(max (nextStartTimeRef s) (currentTime E), duration buf)]"
    and "\<not> is_interrupted m \<Longrightarrow> nextStartTimeRef (fst (onmessage U E m s)) =
           max (nextStartTimeRef s) (currentTime E) + duration buf"
proof -
  note a = audioOutput_started [OF assms(2-5), of "currentTime E"]
  note o = onmessage_returned [OF assms(1) a]
  show "scheduled (fst (snd (onmessage U E m s))) =
           [(max (nextStartTimeRef s) (currentTime E), duration buf)]"
    unfolding o by (simp add: scheduled_append after_audio_scheduled)
  show "\<not> is_interrupted m \<Longrightarrow> nextStartTimeRef (fst (onmessage U E m s)) =
           max (nextStartTimeRef s) (currentTime E) + duration buf"
    unfolding o by (simp add: after_audio_clock)
qed

lemma run_clock:
  assumes "\<forall>ev \<in> set evs. \<not> interrupting ev"
  shows "successively no_overlap (scheduled (snd (run U s evs))) \<and>
     (\<forall>x \<in> set (take 1 (scheduled (snd (run U s evs)))). nextStartTimeRef s \<le> fst x) \<and>
     ((\<forall>bytes buf. decodeAudioData U bytes = Inr buf \<longrightarrow> 0 \<le> duration buf) \<longrightarrow>
        nextStartTimeRef s \<le> nextStartTimeRef (fst (run U s evs)))"
  using assms
proof (induction evs arbitrary: s)
  case Nil
  then show ?case by simp
next
  case (Cons ev evs)
  obtain s1 out1 where st: "step U ev s = (s1, out1)" by (cases "step U ev s") auto
  obtain s2 out2 where rn: "run U s1 evs = (s2, out2)" by (cases "run U s1 evs") auto
  from Cons.prems have "\<not> interrupting ev" by simp
  from step_clock [OF this, of U s] st have cs: "clock_step U s s1 out1" by simp
  from Cons.IH [of s1] Cons.prems rn have
    ih1: "successively no_overlap (scheduled out2)" and
    ih2: "\<forall>x \<in> set (take 1 (scheduled out2)). nextStartTimeRef s1 \<le> fst x" and
    ih3: "(\<forall>bytes buf. decodeAudioData U bytes = Inr buf \<longrightarrow> 0 \<le> duration buf) \<longrightarrow>
        nextStartTimeRef s1 \<le> nextStartTimeRef s2"
    by simp_all
  have r: "run U s (ev # evs) = (s2, out1 @ out2)" using st rn by simp
  from cs show ?case
    unfolding clock_step_def
  proof (elim disjE conjE exE)
    assume a: "scheduled out1 = []" "nextStartTimeRef s \<le> nextStartTimeRef s1"
    with ih1 ih2 ih3 r show ?thesis
      by (auto simp: scheduled_append)
  next
    fix t d bytes buf
    assume a: "scheduled out1 = [(t, d)]" "nextStartTimeRef s \<le> t"
      "nextStartTimeRef s1 = t + d" "decodeAudioData U bytes = Inr buf" "d = duration buf"
    have "successively no_overlap ((t, d) # scheduled out2)"
      using ih1 ih2 a(3) by (cases "scheduled out2") (auto simp: no_overlap_def)
    moreover have "(\<forall>bytes buf. decodeAudioData U bytes = Inr buf \<longrightarrow> 0 \<le> duration buf) \<longrightarrow>
        nextStartTimeRef s \<le> nextStartTimeRef s2"
    proof
      assume nn: "\<forall>bytes buf. decodeAudioData U bytes = Inr buf \<longrightarrow> 0 \<le> duration buf"
      with a have "0 \<le> d" by blast
      moreover from nn ih3 have "nextStartTimeRef s1 \<le> nextStartTimeRef s2" by blast
      ultimately show "nextStartTimeRef s \<le> nextStartTimeRef s2"
        using a(2) a(3) by linarith
    qed
    ultimately show ?thesis using r a by (simp add: scheduled_append)
  qed
qed



subsection \<open>Playback schedule\<close>

text \<open>
  C1. In every run of the session in which no inbound message signals an
  interruption, each scheduled chunk starts no earlier than the previous chunk's start
  plus the previous chunk's duration. If the decoder only returns buffers of
  non-negative duration, \<open>nextStartTimeRef\<close> never decreases along such a run. A
  message whose payload decodes is started at the maximum of \<open>nextStartTimeRef\<close> and the
  output clock, and \<open>nextStartTimeRef\<close> is then that start plus the chunk's duration.
\<close>

theorem monotonic_playback_schedule:
  assumes "\<forall>ev \<in> set evs. \<not> interrupting ev"
  shows "successively (\<lambda>(t1, d1) (t2, d2). t1 + d1 \<le> t2) (scheduled (snd (run U s evs)))
    \<and> ((\<forall>bytes buf. decodeAudioData U bytes = Inr buf \<longrightarrow> 0 \<le> duration buf) \<longrightarrow>
         nextStartTimeRef s \<le> nextStartTimeRef (fst (run U s evs)))
    \<and> (b64 \<noteq> [] \<and> outputAudioContextRef s \<noteq> None \<and> base64Audio m = Inr (Some b64) \<and>
       base64ToBytes U b64 = Inr bytes \<and> decodeAudioData U bytes = Inr buf \<and>
       \<not> is_interrupted m \<longrightarrow>
         scheduled (fst (snd (onmessage U E m s))) =
           [(max (nextStartTimeRef s) (currentTime E), duration buf)] \<and>
         nextStartTimeRef (fst (onmessage U E m s)) =
           max (nextStartTimeRef s) (currentTime E) + duration buf)"
proof (intro conjI impI)
  have "no_overlap = (\<lambda>(t1, d1) (t2, d2). t1 + d1 \<le> t2)"
    by (auto simp: no_overlap_def fun_eq_iff)
  with run_clock [OF assms, of U s]
  show "successively (\<lambda>(t1, d1) (t2, d2). t1 + d1 \<le> t2) (scheduled (snd (run U s evs)))"
    by simp
next
  assume "\<forall>bytes buf. decodeAudioData U bytes = Inr buf \<longrightarrow> 0 \<le> duration buf"
  with run_clock [OF assms, of U s]
  show "nextStartTimeRef s \<le> nextStartTimeRef (fst (run U s evs))" by blast
next
  assume h: "b64 \<noteq> [] \<and> outputAudioContextRef s \<noteq> None \<and> base64Audio m = Inr (Some b64) \<and>
       base64ToBytes U b64 = Inr bytes \<and> decodeAudioData U bytes = Inr buf \<and>
       \<not> is_interrupted m"
  then have a: "audioOutput U (currentTime E) (Some b64) s =
     (s\<lparr>nextStartTimeRef := max (nextStartTimeRef s) (currentTime E) + duration buf,
        audioSourcesRef := set_add \<lparr>node = nextHandle s, buffer = buf\<rparr> (audioSourcesRef s),
        nextHandle := Suc (nextHandle s)\<rparr>,
      [SourceConnect \<lparr>node = nextHandle s, buffer = buf\<rparr> (outputAnalyserRef s),
       SourceStart \<lparr>node = nextHandle s, buffer = buf\<rparr>
         (max (nextStartTimeRef s) (currentTime E))],
      None)"
    using audioOutput_started [of b64 s U bytes buf "currentTime E"] by simp
  from h have "base64Audio m = Inr (Some b64)" by simp
  note o = onmessage_returned [OF this a]
  show "scheduled (fst (snd (onmessage U E m s))) =
           [(max (nextStartTimeRef s) (currentTime E), duration buf)]"
    unfolding o by (simp add: scheduled_append after_audio_scheduled)
  from h show "nextStartTimeRef (fst (onmessage U E m s)) =
           max (nextStartTimeRef s) (currentTime E) + duration buf"
    unfolding o by (simp add: after_audio_clock)
qed

theorem monotonic_playback_schedule_witness:
  "\<not> interrupting (Inbound E0 (audio_chunk ''AAAA''))
   \<and> \<not> interrupting (Inbound E5 (audio_chunk ''AAAA''))
   \<and> successively (\<lambda>(t1, d1) (t2, d2). t1 + d1 \<le> t2)
       (scheduled (snd (run U0 active
          [Inbound E0 (audio_chunk ''AAAA''), Inbound E5 (audio_chunk ''AAAA'')])))
   \<and> nextStartTimeRef active \<le> nextStartTimeRef (fst (run U0 active
          [Inbound E0 (audio_chunk ''AAAA''), Inbound E5 (audio_chunk ''AAAA'')]))
   \<and> scheduled (fst (snd (onmessage U0 E5 (audio_chunk ''AAAA'') active))) =
       [(max (nextStartTimeRef active) (currentTime E5), duration \<lparr>duration = 1\<rparr>)]"
proof -
  have i: "\<not> interrupting (Inbound E0 (audio_chunk ''AAAA''))"
    "\<not> interrupting (Inbound E5 (audio_chunk ''AAAA''))"
    by (simp_all add: interrupting_def)
  then have h: "\<forall>ev \<in> set [Inbound E0 (audio_chunk ''AAAA''), Inbound E5 (audio_chunk ''AAAA'')].
      \<not> interrupting ev"
    by simp
  have n: "\<forall>bytes buf. decodeAudioData U0 bytes = Inr buf \<longrightarrow> 0 \<le> duration buf"
    by (auto simp: U0_def)
  have p: "''AAAA'' \<noteq> [] \<and> outputAudioContextRef active \<noteq> None \<and>
      base64Audio (audio_chunk ''AAAA'') = Inr (Some ''AAAA'') \<and>
      base64ToBytes U0 ''AAAA'' = Inr [] \<and> decodeAudioData U0 [] = Inr \<lparr>duration = 1\<rparr> \<and>
      \<not> is_interrupted (audio_chunk ''AAAA'')"
    by (simp add: U0_def active_def initial_def)
  from monotonic_playback_schedule [OF h, where U = U0 and s = active and ?b64.0 = "''AAAA''"
      and m = "audio_chunk ''AAAA''" and bytes = "[]" and buf = "\<lparr>duration = 1\<rparr>" and E = E5]
    n p i
  show ?thesis by auto
qed

lemma interrupted_signal_simps [simp]:
  "is_interrupted interrupted_signal" "base64Audio interrupted_signal = Inr None"
  "interruption_only interrupted_signal"
  by (simp_all add: interrupted_signal_def is_interrupted_def base64Audio_def
      interruption_only_def)

lemma onmessage_split:
  "onmessage U E m s =
     (case onmessage_call U E m s of
        (s1, out, Finished err) \<Rightarrow> (s1, out, err)
      | (s1, out, Awaiting audioBytes) \<Rightarrow> onmessage_settled U E m audioBytes s1)"
proof (cases "base64Audio m")
  case (Inl e)
  then show ?thesis by (simp add: onmessage_def onmessage_call_def)
next
  case (Inr b)
  show ?thesis
  proof (cases "b = None \<or> b = Some [] \<or> outputAudioContextRef s = None")
    case True
    from audioOutput_skip [OF True, of U "currentTime E"] Inr
    have "onmessage U E m s =
        (fst (after_audio (dateNow E) m s), snd (after_audio (dateNow E) m s), None)"
      using onmessage_returned [of m b U E s s "[]"] by simp
    moreover from True Inr have "onmessage_call U E m s =
        (fst (after_audio (dateNow E) m s), snd (after_audio (dateNow E) m s), Finished None)"
      by (auto simp: onmessage_call_def case_prod_beta split: option.splits)
    ultimately show ?thesis by simp
  next
    case False
    then obtain b64 where b: "b = Some b64" "b64 \<noteq> []" "outputAudioContextRef s \<noteq> None"
      by (cases b) auto
    show ?thesis
    proof (cases "base64ToBytes U b64")
      case (Inl e)
      from audioOutput_failed [of b64 s U e "currentTime E"] b Inl
      have "audioOutput U (currentTime E) b s =
          (s\<lparr>nextStartTimeRef := max (nextStartTimeRef s) (currentTime E)\<rparr>, [], Some e)"
        by simp
      from onmessage_thrown [OF Inr this] Inl b Inr show ?thesis
        by (auto simp: onmessage_call_def)
    next
      case bytes: (Inr audioBytes)
      show ?thesis
      proof (cases "decodeAudioData U audioBytes")
        case (Inl e)
        from audioOutput_failed [of b64 s U e "currentTime E"] b bytes Inl
        have "audioOutput U (currentTime E) b s =
            (s\<lparr>nextStartTimeRef := max (nextStartTimeRef s) (currentTime E)\<rparr>, [], Some e)"
          by simp
        from onmessage_thrown [OF Inr this] Inl b Inr bytes show ?thesis
          by (auto simp: onmessage_call_def onmessage_settled_def)
      next
        case buf: (Inr audioBuffer)
        from audioOutput_started [OF b(2) b(3) bytes buf, of "currentTime E"] b
        have a: "audioOutput U (currentTime E) b s =
           (s\<lparr>nextStartTimeRef := max (nextStartTimeRef s) (currentTime E) + duration audioBuffer,
              audioSourcesRef := set_add \<lparr>node = nextHandle s, buffer = audioBuffer\<rparr> (audioSourcesRef s),
              nextHandle := Suc (nextHandle s)\<rparr>,
            [SourceConnect \<lparr>node = nextHandle s, buffer = audioBuffer\<rparr> (outputAnalyserRef s),
             SourceStart \<lparr>node = nextHandle s, buffer = audioBuffer\<rparr>
               (max (nextStartTimeRef s) (currentTime E))],
            None)"
          by simp
        from onmessage_returned [OF Inr a] b Inr bytes buf show ?thesis
          by (auto simp: onmessage_call_def onmessage_settled_def Let_def case_prod_beta)
      qed
    qed
  qed
qed

lemma connect_split:
  "connect C s =
     (case connect_call (isConnected s) (isConnecting s) (apiKey C) s of
        (s1, out1, suspended) \<Rightarrow>
          if suspended
          then (case connect_settled (userMedia C) s1 of (s2, out2) \<Rightarrow> (s2, out1 @ out2))
          else (s1, out1))"
  by (cases "userMedia C")
    (simp_all add: connect_def connect_call_def connect_settled_def Let_def)

lemma occur_ConnectCall:
  "occur U (ConnectCall key) h =
     (h\<lparr>refs := fst (connect_call (closed_over_isConnected h) (closed_over_isConnecting h) key (refs h)),
        media_pending := media_pending h +
          (if snd (snd (connect_call (closed_over_isConnected h) (closed_over_isConnecting h) key (refs h)))
           then 1 else 0)\<rparr>,
      fst (snd (connect_call (closed_over_isConnected h) (closed_over_isConnecting h) key (refs h))))"
  by (simp add: occur_def case_prod_beta)

lemma occur_MediaSettled:
  "occur U (MediaSettled granted) h =
     (if media_pending h = 0 then (h, [])
      else (h\<lparr>refs := fst (connect_settled granted (refs h)),
               media_pending := media_pending h - 1\<rparr>,
            snd (connect_settled granted (refs h))))"
  by (simp add: occur_def case_prod_beta)

lemma occur_Rendered:
  "occur U Rendered h =
     (h\<lparr>closed_over_isConnected := isConnected (refs h),
         closed_over_isConnecting := isConnecting (refs h)\<rparr>, [])"
  by (simp add: occur_def)










text \<open>
  C2, as stated, fails twice. A message that signals the interruption on a model
  turn without \<open>parts\<close> throws at line 101: the queued source stays in the set and
  \<open>nextStartTimeRef\<close> stays at 12. And when the interruption arrives while a chunk is
  being decoded (the chunk arrived with the output clock at 5), the chunk is started
  afterwards at time 0, is never stopped and stays in the set.
\<close>

lemma interrupted_without_parts_simps [simp]:
  "is_interrupted interrupted_without_parts"
  "base64Audio interrupted_without_parts = Inl TypeError"
  by (simp_all add: interrupted_without_parts_def is_interrupted_def base64Audio_def)


text \<open>
  C6, as amended. When the payload of a message is rejected by \<open>base64ToBytes\<close> or
  \<open>decodeAudioData\<close>, the exception leaves \<open>onmessage\<close>: the callback performs no effect
  at all (no error hook, no cleanup, nothing scheduled, no transcript message), and the
  state is unchanged except that \<open>nextStartTimeRef\<close> has already been raised to the
  maximum of its old value and the output clock. The following events are handled from
  that state.
\<close>

theorem decode_failure_drops_chunk:
  assumes "base64Audio m = Inr (Some b64)" and "b64 \<noteq> []" and "outputAudioContextRef s \<noteq> None"
    and "base64ToBytes U b64 = Inl e \<or>
         (\<exists>bytes. base64ToBytes U b64 = Inr bytes \<and> decodeAudioData U bytes = Inl e)"
  shows "onmessage U E m s =
      (s\<lparr>nextStartTimeRef := max (nextStartTimeRef s) (currentTime E)\<rparr>, [], Some e)
    \<and> run U s (Inbound E m # evs) =
        run U (s\<lparr>nextStartTimeRef := max (nextStartTimeRef s) (currentTime E)\<rparr>) evs"
proof -
  note a = audioOutput_failed [OF assms(2-4), of "currentTime E"]
  have o: "onmessage U E m s =
      (s\<lparr>nextStartTimeRef := max (nextStartTimeRef s) (currentTime E)\<rparr>, [], Some e)"
    by (rule onmessage_thrown [OF assms(1) a])
  then show ?thesis by (simp add: step_Inbound split: prod.splits)
qed

theorem decode_failure_drops_chunk_witness:
  "onmessage U_reject E5 (audio_chunk ''AAAA'') active =
      (active\<lparr>nextStartTimeRef := max (nextStartTimeRef active) (currentTime E5)\<rparr>, [],
       Some (Failure ''decode''))
    \<and> run U_reject active [Inbound E5 (audio_chunk ''AAAA'')] =
        run U_reject (active\<lparr>nextStartTimeRef := max (nextStartTimeRef active) (currentTime E5)\<rparr>) []"
proof (rule decode_failure_drops_chunk)
  show "base64Audio (audio_chunk ''AAAA'') = Inr (Some ''AAAA'')" by simp
  show "''AAAA'' \<noteq> []" by simp
  show "outputAudioContextRef active \<noteq> None" by (simp add: active_def initial_def)
  show "base64ToBytes U_reject ''AAAA'' = Inl (Failure ''decode'') \<or>
         (\<exists>bytes. base64ToBytes U_reject ''AAAA'' = Inr bytes \<and>
            decodeAudioData U_reject bytes = Inl (Failure ''decode''))"
    by (simp add: U_reject_def)
qed

text \<open>
  C6, as stated, fails: with the output clock at 5 and \<open>nextStartTimeRef\<close> at 0, a
  rejected payload calls no hook (the exception is the only outcome) and leaves
  \<open>nextStartTimeRef\<close> at 5.
\<close>

theorem decode_failure_counterexample:
  "fst (snd (onmessage U_reject E5 (audio_chunk ''AAAA'') active)) = []
   \<and> snd (snd (onmessage U_reject E5 (audio_chunk ''AAAA'') active)) = Some (Failure ''decode'')
   \<and> nextStartTimeRef active = 0
   \<and> nextStartTimeRef (fst (onmessage U_reject E5 (audio_chunk ''AAAA'') active)) = 5"
proof -
  have o: "onmessage U_reject E5 (audio_chunk ''AAAA'') active =
      (active\<lparr>nextStartTimeRef := max (nextStartTimeRef active) (currentTime E5)\<rparr>, [],
       Some (Failure ''decode''))"
    by (rule onmessage_thrown [OF audio_chunk_simps(1) audioOutput_failed])
      (simp_all add: active_def initial_def U_reject_def)
  show ?thesis unfolding o by (simp add: active_def initial_def E5_def)
qed

subsection \<open>Transcript accumulation\<close>

text \<open>
  C3. From empty buffers, the fragments "ami", " bhalo", " achi" for the model role and
  then one turn-complete make the hook call \<open>onMessage\<close> exactly four times: three
  partial messages with the texts "ami", "ami bhalo", "ami bhalo achi" and one final
  message with the text "ami bhalo achi"; the model buffer is empty afterwards. In
  general a message with an output fragment appends the fragment to the model buffer
  and emits exactly one partial message with the whole buffer; a message with an input
  fragment and no output fragment does the same for the user role.
\<close>

theorem transcript_finalization:
  "(currentInputTranscription s = [] \<and> currentOutputTranscription s = [] \<longrightarrow>
      snd (run U s [Inbound E1 (fragment Model ''ami''), Inbound E2 (fragment Model '' bhalo''),
                    Inbound E3 (fragment Model '' achi''), Inbound E4 turn_complete]) =
        [OnMessage (mkMessage (dateNow E1) 0 ''model'' Model ''ami'' True),
         OnMessage (mkMessage (dateNow E2) 0 ''model'' Model ''ami bhalo'' True),
         OnMessage (mkMessage (dateNow E3) 0 ''model'' Model ''ami bhalo achi'' True),
         OnMessage (mkMessage (dateNow E4) 0 ''model_final'' Model ''ami bhalo achi'' False)] \<and>
      currentOutputTranscription
        (fst (run U s [Inbound E1 (fragment Model ''ami''), Inbound E2 (fragment Model '' bhalo''),
                       Inbound E3 (fragment Model '' achi''), Inbound E4 turn_complete])) = [])
   \<and> (\<not> audio_fails U m s \<and> get_outputTranscription m = Some tr \<longrightarrow>
        currentOutputTranscription (fst (onmessage U E m s)) =
          (if is_turnComplete m then []
           else currentOutputTranscription s @ js_string (tr_text tr)) \<and>
        filter isPartial (emitted (fst (snd (onmessage U E m s)))) =
          [mkMessage (dateNow E) 0 ''model'' Model
             (currentOutputTranscription s @ js_string (tr_text tr)) True])
   \<and> (\<not> audio_fails U m s \<and> get_outputTranscription m = None \<and>
      get_inputTranscription m = Some tr \<longrightarrow>
        currentInputTranscription (fst (onmessage U E m s)) =
          (if is_turnComplete m then []
           else currentInputTranscription s @ js_string (tr_text tr)) \<and>
        filter isPartial (emitted (fst (snd (onmessage U E m s)))) =
          [mkMessage (dateNow E) 0 ''user'' User
             (currentInputTranscription s @ js_string (tr_text tr)) True])"
proof (intro conjI impI)
  assume "currentInputTranscription s = [] \<and> currentOutputTranscription s = []"
  then show "snd (run U s [Inbound E1 (fragment Model ''ami''), Inbound E2 (fragment Model '' bhalo''),
                    Inbound E3 (fragment Model '' achi''), Inbound E4 turn_complete]) =
        [OnMessage (mkMessage (dateNow E1) 0 ''model'' Model ''ami'' True),
         OnMessage (mkMessage (dateNow E2) 0 ''model'' Model ''ami bhalo'' True),
         OnMessage (mkMessage (dateNow E3) 0 ''model'' Model ''ami bhalo achi'' True),
         OnMessage (mkMessage (dateNow E4) 0 ''model_final'' Model ''ami bhalo achi'' False)]"
    by (simp add: step_Inbound onmessage_model_fragment onmessage_turn_complete)
next
  assume "currentInputTranscription s = [] \<and> currentOutputTranscription s = []"
  then show "currentOutputTranscription
        (fst (run U s [Inbound E1 (fragment Model ''ami''), Inbound E2 (fragment Model '' bhalo''),
                       Inbound E3 (fragment Model '' achi''), Inbound E4 turn_complete])) = []"
    by (simp add: step_Inbound onmessage_model_fragment onmessage_turn_complete)
next
  assume h: "\<not> audio_fails U m s \<and> get_outputTranscription m = Some tr"
  then obtain s1 where s1: "currentOutputTranscription s1 = currentOutputTranscription s"
     "fst (onmessage U E m s) = fst (after_audio (dateNow E) m s1)"
     "emitted (fst (snd (onmessage U E m s))) = emitted (snd (after_audio (dateNow E) m s1))"
    using onmessage_transcripts [of U m s E] by blast
  from h have o: "get_outputTranscription m = Some tr" by simp
  show "currentOutputTranscription (fst (onmessage U E m s)) =
          (if is_turnComplete m then []
           else currentOutputTranscription s @ js_string (tr_text tr))"
    using after_audio_output_fragment [OF o, of "dateNow E" s1] s1 by simp
  show "filter isPartial (emitted (fst (snd (onmessage U E m s)))) =
          [mkMessage (dateNow E) 0 ''model'' Model
             (currentOutputTranscription s @ js_string (tr_text tr)) True]"
    using after_audio_output_fragment [OF o, of "dateNow E" s1] s1 by simp
next
  assume h: "\<not> audio_fails U m s \<and> get_outputTranscription m = None \<and>
      get_inputTranscription m = Some tr"
  then obtain s1 where s1: "currentInputTranscription s1 = currentInputTranscription s"
     "fst (onmessage U E m s) = fst (after_audio (dateNow E) m s1)"
     "emitted (fst (snd (onmessage U E m s))) = emitted (snd (after_audio (dateNow E) m s1))"
    using onmessage_transcripts [of U m s E] by blast
  from h have o: "get_outputTranscription m = None" "get_inputTranscription m = Some tr"
    by simp_all
  show "currentInputTranscription (fst (onmessage U E m s)) =
          (if is_turnComplete m then []
           else currentInputTranscription s @ js_string (tr_text tr))"
    using after_audio_input_fragment [OF o, of "dateNow E" s1] s1 by simp
  show "filter isPartial (emitted (fst (snd (onmessage U E m s)))) =
          [mkMessage (dateNow E) 0 ''user'' User
             (currentInputTranscription s @ js_string (tr_text tr)) True]"
    using after_audio_input_fragment [OF o, of "dateNow E" s1] s1 by simp
qed

theorem transcript_finalization_witness:
  "map msg_text (emitted (snd (run U0 initial
      [Inbound E0 (fragment Model ''ami''), Inbound E0 (fragment Model '' bhalo''),
       Inbound E0 (fragment Model '' achi''), Inbound E0 turn_complete]))) =
     [''ami'', ''ami bhalo'', ''ami bhalo achi'', ''ami bhalo achi'']
   \<and> currentOutputTranscription (fst (onmessage U0 E0 (fragment Model ''ami'') initial)) = ''ami''
   \<and> currentInputTranscription (fst (onmessage U0 E0 (fragment User ''ki'') initial)) = ''ki''"
proof -
  have h: "currentInputTranscription initial = [] \<and> currentOutputTranscription initial = []"
    by (simp add: initial_def)
  have a: "snd (run U0 initial
      [Inbound E0 (fragment Model ''ami''), Inbound E0 (fragment Model '' bhalo''),
       Inbound E0 (fragment Model '' achi''), Inbound E0 turn_complete]) =
        [OnMessage (mkMessage (dateNow E0) 0 ''model'' Model ''ami'' True),
         OnMessage (mkMessage (dateNow E0) 0 ''model'' Model ''ami bhalo'' True),
         OnMessage (mkMessage (dateNow E0) 0 ''model'' Model ''ami bhalo achi'' True),
         OnMessage (mkMessage (dateNow E0) 0 ''model_final'' Model ''ami bhalo achi'' False)]"
    using transcript_finalization [where s = initial and U = U0 and ?E1.0 = E0 and ?E2.0 = E0
      and ?E3.0 = E0 and ?E4.0 = E0] h by blast
  have b: "currentOutputTranscription (fst (onmessage U0 E0 (fragment Model ''ami'') initial)) =
      currentOutputTranscription initial @ js_string (Some ''ami'')"
    using transcript_finalization [where s = initial and U = U0 and E = E0
      and m = "fragment Model ''ami''" and tr = "\<lparr>tr_text = Some ''ami''\<rparr>"]
    by simp
  have c: "currentInputTranscription (fst (onmessage U0 E0 (fragment User ''ki'') initial)) =
      currentInputTranscription initial @ js_string (Some ''ki'')"
    using transcript_finalization [where s = initial and U = U0 and E = E0
      and m = "fragment User ''ki''" and tr = "\<lparr>tr_text = Some ''ki''\<rparr>"]
    by simp
  show ?thesis
    unfolding a b c by (simp add: mkMessage_def initial_def js_string_def)
qed

text \<open>
  C7. A turn-complete message without fragments emits, for each role, one final
  message if that role's buffer is not empty and nothing if it is empty; with both
  buffers empty it emits nothing at all. Both buffers are empty afterwards.
\<close>

theorem turn_complete_empty_buffer:
  assumes "\<not> audio_fails U m s" and "is_turnComplete m"
    and "get_outputTranscription m = None" and "get_inputTranscription m = None"
  shows "emitted (fst (snd (onmessage U E m s))) =
      (if currentInputTranscription s \<noteq> []
       then [mkMessage (dateNow E) 0 ''user_final'' User (currentInputTranscription s) False]
       else []) @
      (if currentOutputTranscription s \<noteq> []
       then [mkMessage (dateNow E) (if currentInputTranscription s \<noteq> [] then 2 else 0)
               ''model_final'' Model (currentOutputTranscription s) False]
       else [])
    \<and> (currentInputTranscription s = [] \<longrightarrow>
         (\<forall>msg \<in> set (emitted (fst (snd (onmessage U E m s)))). role msg \<noteq> User))
    \<and> (currentOutputTranscription s = [] \<longrightarrow>
         (\<forall>msg \<in> set (emitted (fst (snd (onmessage U E m s)))). role msg \<noteq> Model))
    \<and> (currentInputTranscription s = [] \<and> currentOutputTranscription s = [] \<longrightarrow>
         emitted (fst (snd (onmessage U E m s))) = [])
    \<and> currentInputTranscription (fst (onmessage U E m s)) = []
    \<and> currentOutputTranscription (fst (onmessage U E m s)) = []"
proof -
  obtain s1 where s1: "currentInputTranscription s1 = currentInputTranscription s"
     "currentOutputTranscription s1 = currentOutputTranscription s"
     "fst (onmessage U E m s) = fst (after_audio (dateNow E) m s1)"
     "emitted (fst (snd (onmessage U E m s))) = emitted (snd (after_audio (dateNow E) m s1))"
    using onmessage_transcripts [OF assms(1), of E] by blast
  show ?thesis
    using after_audio_turn_complete [OF assms(3) assms(4) assms(2), of "dateNow E" s1] s1
    by simp
qed

theorem turn_complete_empty_buffer_witness:
  "emitted (fst (snd (onmessage U0 E0 turn_complete initial))) = []
   \<and> map msg_text (emitted (fst (snd (onmessage U0 E0 turn_complete
        (initial\<lparr>currentOutputTranscription := ''ami''\<rparr>))))) = [''ami'']"
proof -
  have a: "emitted (fst (snd (onmessage U0 E0 turn_complete initial))) = []"
    using turn_complete_empty_buffer [where U = U0 and E = E0 and m = turn_complete and s = initial]
    by (simp add: initial_def)
  have b: "emitted (fst (snd (onmessage U0 E0 turn_complete
        (initial\<lparr>currentOutputTranscription := ''ami''\<rparr>)))) =
      [mkMessage (dateNow E0) 0 ''model_final'' Model ''ami'' False]"
    using turn_complete_empty_buffer [where U = U0 and E = E0 and m = turn_complete
      and s = "initial\<lparr>currentOutputTranscription := ''ami''\<rparr>"]
    by (simp add: initial_def)
  show ?thesis
    unfolding a b by (simp add: mkMessage_def)
qed

text \<open>
  C9. The id of a message is the wall clock's milliseconds followed by a tag for the
  role and the kind. Two fragments of the same role handled within one millisecond get
  the same id.
\<close>

theorem message_ids_collide:
  "map msg_id (emitted (snd (run U s
      [Inbound E0 (fragment Model ''ami''), Inbound E0 (fragment Model '' bhalo'')]))) =
   [''1700000000000model'', ''1700000000000model'']"
proof -
  have "toString 1700000000000 = ''1700000000000''"
    by (simp add: toString.simps digit_def)
  then show ?thesis
    by (simp add: step_Inbound onmessage_model_fragment mkMessage_def E0_def)
qed

lemma forget_playback_eqD:
  assumes "forget_playback s = forget_playback s'"
  shows "s' = s\<lparr>audioSourcesRef := audioSourcesRef s', nextStartTimeRef := nextStartTimeRef s'\<rparr>"
proof -
  have "s' = (forget_playback s')\<lparr>audioSourcesRef := audioSourcesRef s',
      nextStartTimeRef := nextStartTimeRef s'\<rparr>"
    by (simp add: forget_playback_def)
  also have "\<dots> = (forget_playback s)\<lparr>audioSourcesRef := audioSourcesRef s',
      nextStartTimeRef := nextStartTimeRef s'\<rparr>"
    by (simp add: assms)
  also have "\<dots> = s\<lparr>audioSourcesRef := audioSourcesRef s', nextStartTimeRef := nextStartTimeRef s'\<rparr>"
    by (simp add: forget_playback_def)
  finally show ?thesis .
qed

lemma forget_playback_update [simp]:
  "forget_playback (s\<lparr>audioSourcesRef := a, nextStartTimeRef := n\<rparr>) = forget_playback s"
  by (simp add: forget_playback_def)

lemma audioOutput_forget:
  "forget_playback (fst (audioOutput U now b (s\<lparr>audioSourcesRef := a, nextStartTimeRef := n\<rparr>))) =
     forget_playback (fst (audioOutput U now b s)) \<and>
   snd (snd (audioOutput U now b (s\<lparr>audioSourcesRef := a, nextStartTimeRef := n\<rparr>))) =
     snd (snd (audioOutput U now b s)) \<and>
   emitted (fst (snd (audioOutput U now b s))) = []"
  by (cases b; cases "base64ToBytes U (the b)";
      cases "decodeAudioData U (projr (base64ToBytes U (the b)))")
    (auto simp: audioOutput_def Let_def forget_playback_def)

lemma interruption_forget:
  "forget_playback (fst (interruption m (s\<lparr>audioSourcesRef := a, nextStartTimeRef := n\<rparr>))) =
     forget_playback (fst (interruption m s)) \<and>
   emitted (snd (interruption m s)) = []"
  by (simp add: interruption_def forget_playback_def emitted_SourceStop)

lemma transcription_playback:
  "transcription clk m (s\<lparr>audioSourcesRef := a, nextStartTimeRef := n\<rparr>) =
     ((fst (transcription clk m s))\<lparr>audioSourcesRef := a, nextStartTimeRef := n\<rparr>,
      snd (transcription clk m s))"
  by (simp add: transcription_def Let_def split: option.splits)

lemma turnCompleted_playback:
  "turnCompleted clk k m (s\<lparr>audioSourcesRef := a, nextStartTimeRef := n\<rparr>) =
     ((fst (turnCompleted clk k m s))\<lparr>audioSourcesRef := a, nextStartTimeRef := n\<rparr>,
      snd (turnCompleted clk k m s))"
  by (simp add: turnCompleted_def finalizeInput_def finalizeOutput_def)

lemma after_audio_forget:
  assumes "forget_playback s = forget_playback s'"
  shows "forget_playback (fst (after_audio clk m s)) = forget_playback (fst (after_audio clk m s')) \<and>
     emitted (snd (after_audio clk m s)) = emitted (snd (after_audio clk m s'))"
proof -
  define s2 where "s2 = fst (interruption m s)"
  define s2' where "s2' = fst (interruption m s')"
  define a n where "a = audioSourcesRef s2'" and "n = nextStartTimeRef s2'"
  have "forget_playback s2 = forget_playback s2'"
    using interruption_forget [where m = m and s = s and a = "audioSourcesRef s'"
        and n = "nextStartTimeRef s'"]
      forget_playback_eqD [OF assms]
    by (simp add: s2_def s2'_def)
  from forget_playback_eqD [OF this]
  have s2': "s2' = s2\<lparr>audioSourcesRef := a, nextStartTimeRef := n\<rparr>"
    by (simp add: a_def n_def)
  have e2: "emitted (snd (interruption m s)) = []" "emitted (snd (interruption m s')) = []"
    using interruption_forget [where m = m and s = s]
      interruption_forget [where m = m and s = s'] by simp_all
  have x: "after_audio clk m s =
      (fst (turnCompleted clk (2 * length (snd (transcription clk m s2))) m
              (fst (transcription clk m s2))),
       snd (interruption m s) @ snd (transcription clk m s2) @
       snd (turnCompleted clk (2 * length (snd (transcription clk m s2))) m
              (fst (transcription clk m s2))))"
    by (simp add: after_audio_def s2_def case_prod_beta)
  have y: "after_audio clk m s' =
      ((fst (turnCompleted clk (2 * length (snd (transcription clk m s2))) m
              (fst (transcription clk m s2))))\<lparr>audioSourcesRef := a, nextStartTimeRef := n\<rparr>,
       snd (interruption m s') @ snd (transcription clk m s2) @
       snd (turnCompleted clk (2 * length (snd (transcription clk m s2))) m
              (fst (transcription clk m s2))))"
    using s2' by (simp add: after_audio_def s2'_def [symmetric] case_prod_beta
        transcription_playback turnCompleted_playback)
  show ?thesis
    unfolding x y using e2 by (simp add: emitted_append)
qed

lemma onmessage_forget:
  assumes "forget_playback s = forget_playback s'"
  shows "forget_playback (fst (onmessage U E m s)) = forget_playback (fst (onmessage U E m s')) \<and>
     emitted (fst (snd (onmessage U E m s))) = emitted (fst (snd (onmessage U E m s')))"
proof (cases "base64Audio m")
  case (Inl e)
  then show ?thesis by (simp add: onmessage_def assms)
next
  case (Inr b)
  obtain s1 out1 err where x: "audioOutput U (currentTime E) b s = (s1, out1, err)"
    by (cases "audioOutput U (currentTime E) b s") auto
  obtain s1' out1' err' where y: "audioOutput U (currentTime E) b s' = (s1', out1', err')"
    by (cases "audioOutput U (currentTime E) b s'") auto
  from audioOutput_forget [where U = U and now = "currentTime E" and b = b and s = s
      and a = "audioSourcesRef s'" and n = "nextStartTimeRef s'"]
    forget_playback_eqD [OF assms] x y
  have f: "forget_playback s1 = forget_playback s1'" and e: "err' = err"
    and em: "emitted out1 = []" by simp_all
  from audioOutput_forget [where U = U and now = "currentTime E" and b = b and s = s'] y
  have em': "emitted out1' = []" by simp
  show ?thesis
  proof (cases err)
    case (Some ex)
    with Inr x y e f em em' show ?thesis by (simp add: onmessage_def)
  next
    case None
    with e x y have r: "audioOutput U (currentTime E) b s = (s1, out1, None)"
      "audioOutput U (currentTime E) b s' = (s1', out1', None)" by simp_all
    show ?thesis
      unfolding onmessage_returned [OF Inr r(1)] onmessage_returned [OF Inr r(2)]
      using after_audio_forget [OF f, of "dateNow E" m] em em'
      by (simp add: emitted_append)
  qed
qed

lemma connect_playback:
  "connect C (s\<lparr>audioSourcesRef := a, nextStartTimeRef := n\<rparr>) =
     ((fst (connect C s))\<lparr>audioSourcesRef := a, nextStartTimeRef := n\<rparr>, snd (connect C s))"
  by (simp add: connect_def Let_def split: sum.splits)

lemma onopen_playback:
  "onopen c st (s\<lparr>audioSourcesRef := a, nextStartTimeRef := n\<rparr>) =
     ((fst (onopen c st s))\<lparr>audioSourcesRef := a, nextStartTimeRef := n\<rparr>, snd (onopen c st s))"
  by (simp add: onopen_def Let_def)

lemma cleanup_playback:
  "cleanup (s\<lparr>audioSourcesRef := a, nextStartTimeRef := n\<rparr>) =
     ((fst (cleanup s))\<lparr>audioSourcesRef := a, nextStartTimeRef := n\<rparr>, snd (cleanup s))"
  by (simp add: cleanup_def)

lemma step_forget:
  assumes "forget_playback s = forget_playback s'"
  shows "forget_playback (fst (step U ev s)) = forget_playback (fst (step U ev s')) \<and>
     emitted (snd (step U ev s)) = emitted (snd (step U ev s'))"
proof -
  define a n where "a = audioSourcesRef s'" and "n = nextStartTimeRef s'"
  with forget_playback_eqD [OF assms]
  have s': "s' = s\<lparr>audioSourcesRef := a, nextStartTimeRef := n\<rparr>" by simp
  show ?thesis
  proof (cases ev)
    case (Inbound E m)
    with onmessage_forget [OF assms, of U E m] show ?thesis by (simp add: step_Inbound)
  next
    case (Connect C)
    then show ?thesis
      unfolding s' by (simp add: step_def connect_playback)
  next
    case (Open c st)
    then show ?thesis
      unfolding s' by (simp add: step_def onopen_playback)
  next
    case (SourceEnded src)
    then show ?thesis
      unfolding s' by (simp add: step_def on_ended_def forget_playback_def)
  next
    case Close
    then show ?thesis
      unfolding s' by (simp add: step_def onclose_def cleanup_playback)
  next
    case ChannelError
    then show ?thesis
      unfolding s' by (simp add: step_def onerror_eq cleanup_playback)
  next
    case Disconnect
    then show ?thesis
      unfolding s' by (simp add: step_def disconnect_def cleanup_playback)
  qed
qed

lemma run_forget:
  assumes "forget_playback s = forget_playback s'"
  shows "emitted (snd (run U s evs)) = emitted (snd (run U s' evs))"
  using assms
proof (induction evs arbitrary: s s')
  case Nil
  then show ?case by simp
next
  case (Cons ev evs)
  from step_forget [OF Cons.prems, of U ev]
  have f: "forget_playback (fst (step U ev s)) = forget_playback (fst (step U ev s'))"
    and e: "emitted (snd (step U ev s)) = emitted (snd (step U ev s'))" by simp_all
  from Cons.IH [OF f] e show ?case
    by (simp add: case_prod_beta emitted_append)
qed

text \<open>
  C10. A message that carries only the interruption signal empties the source set and
  resets \<open>nextStartTimeRef\<close> and changes nothing else: both transcript buffers keep their
  text, no message is emitted, and every later run emits exactly the messages it would
  have emitted without the interruption.
\<close>

theorem interruption_leaves_transcripts:
  assumes "interruption_only m"
  shows "onmessage U E m s =
      (s\<lparr>audioSourcesRef := [], nextStartTimeRef := 0\<rparr>, map SourceStop (audioSourcesRef s), None)
    \<and> currentInputTranscription (fst (onmessage U E m s)) = currentInputTranscription s
    \<and> currentOutputTranscription (fst (onmessage U E m s)) = currentOutputTranscription s
    \<and> emitted (snd (run U (fst (onmessage U E m s)) evs)) = emitted (snd (run U s evs))"
proof -
  from assms obtain sc where sc: "serverContent m = Some sc" "interrupted sc"
    "modelTurn sc = None" "outputTranscription sc = None" "inputTranscription sc = None"
    "\<not> turnComplete sc"
    by (auto simp: interruption_only_def split: option.splits)
  then have f: "base64Audio m = Inr None" "is_interrupted m" "get_outputTranscription m = None"
    "get_inputTranscription m = None" "\<not> is_turnComplete m"
    by (simp_all add: base64Audio_def is_interrupted_def get_outputTranscription_def
        get_inputTranscription_def is_turnComplete_def)
  have o: "onmessage U E m s =
      (s\<lparr>audioSourcesRef := [], nextStartTimeRef := 0\<rparr>, map SourceStop (audioSourcesRef s), None)"
    by (simp add: onmessage_def f audioOutput_def interruption_def transcription_def
        turnCompleted_def)
  have "forget_playback (s\<lparr>audioSourcesRef := [], nextStartTimeRef := 0\<rparr>) = forget_playback s"
    by simp
  from run_forget [OF this, of U evs] o show ?thesis by simp
qed

theorem interruption_leaves_transcripts_witness:
  "interruption_only interrupted_signal
   \<and> currentOutputTranscription (fst (onmessage U0 E0 interrupted_signal
        (playing\<lparr>currentOutputTranscription := ''ami''\<rparr>))) =
      currentOutputTranscription (playing\<lparr>currentOutputTranscription := ''ami''\<rparr>)
   \<and> emitted (snd (run U0 (fst (onmessage U0 E0 interrupted_signal
        (playing\<lparr>currentOutputTranscription := ''ami''\<rparr>))) [Inbound E5 (fragment Model '' bhalo'')])) =
     emitted (snd (run U0 (playing\<lparr>currentOutputTranscription := ''ami''\<rparr>)
        [Inbound E5 (fragment Model '' bhalo'')]))"
  using interruption_leaves_transcripts [OF interrupted_signal_simps(3), where U = U0 and E = E0
      and s = "playing\<lparr>currentOutputTranscription := ''ami''\<rparr>"
      and evs = "[Inbound E5 (fragment Model '' bhalo'')]"]
    interrupted_signal_simps(3)
  by auto

subsection \<open>Lifecycle\<close>

text \<open>
  A second \<open>cleanup\<close> right after a first one changes nothing and releases nothing: it
  only calls the \<open>onDisconnect\<close> hook again.
\<close>

lemma cleanup_twice:
  "cleanup (fst (cleanup s)) = (fst (cleanup s), [OnDisconnect])
   \<and> run U s [Disconnect, Close] = (fst (cleanup s), snd (cleanup s) @ [OnDisconnect])"
proof -
  have 1: "cleanup (fst (cleanup s)) = (fst (cleanup s), [OnDisconnect])"
    by (simp add: cleanup_def release_def)
  then show ?thesis
    by (simp add: step_def disconnect_def onclose_def case_prod_beta)
qed

lemma run_snoc:
  "run U s (evs @ [ev]) =
     (fst (step U ev (fst (run U s evs))),
      snd (run U s evs) @ snd (step U ev (fst (run U s evs))))"
  by (induction evs arbitrary: s) (simp_all add: case_prod_beta)

lemma next_session_delayed:
  "scheduled (snd (run U0 playing
       [Disconnect, Connect C0, Open 9 13, Inbound E0 (audio_chunk ''AAAA'')])) = [(12, 1)]"
proof -
  have a: "fst (step U0 Disconnect playing) =
      playing\<lparr>isConnected := False, mediaStreamRef := None, scriptProcessorRef := None,
         inputAudioContextRef := None, outputAudioContextRef := None,
         inputAnalyserRef := None, outputAnalyserRef := None, sessionRef := None\<rparr>"
    by (simp add: step_def disconnect_def cleanup_def playing_def active_def initial_def)
  have b: "outputAudioContextRef (fst (run U0 playing [Disconnect, Connect C0, Open 9 13])) = Some 10"
    "nextStartTimeRef (fst (run U0 playing [Disconnect, Connect C0, Open 9 13])) = 12"
    by (simp_all add: a case_prod_beta)
      (simp_all add: step_def connect_def onopen_def C0_def playing_def active_def initial_def Let_def)
  have c: "scheduled (snd (run U0 playing [Disconnect, Connect C0, Open 9 13])) = []"
    by (simp add: case_prod_beta scheduled_append step_def disconnect_def onopen_def Let_def
        cleanup_clock connect_clock)
  have u: "base64ToBytes U0 ''AAAA'' = Inr []" "decodeAudioData U0 [] = Inr \<lparr>duration = 1\<rparr>"
    by (simp_all add: U0_def)
  have d: "scheduled (fst (snd (onmessage U0 E0 (audio_chunk ''AAAA'')
        (fst (run U0 playing [Disconnect, Connect C0, Open 9 13]))))) =
      [(max (nextStartTimeRef (fst (run U0 playing [Disconnect, Connect C0, Open 9 13])))
          (currentTime E0), duration \<lparr>duration = 1\<rparr>)]"
    by (rule onmessage_started(1) [where ?b64.0 = "''AAAA''" and bytes = "[]"])
      (simp_all add: b u del: run.simps)
  have e: "currentTime E0 = 0" by (simp add: E0_def)
  have r: "run U0 playing [Disconnect, Connect C0, Open 9 13, Inbound E0 (audio_chunk ''AAAA'')] =
      run U0 playing ([Disconnect, Connect C0, Open 9 13] @ [Inbound E0 (audio_chunk ''AAAA'')])"
    by simp
  show ?thesis
    unfolding r run_snoc by (simp add: scheduled_append c d b e step_Inbound del: run.simps)
qed

text \<open>
  C5. \<open>cleanup\<close> clears the seven resource refs and the flags, and nothing else: on
  a session with one queued source it leaves the source in \<open>audioSourcesRef\<close>,
  \<open>nextStartTimeRef\<close> at 12 and the transcript buffer as it was (the interruption path
  and the turn-complete path do reset them). After a new \<open>connect\<close>, the first chunk,
  which arrives when the new output clock reads 0, is scheduled at 12.
\<close>

theorem cleanup_keeps_playback_state:
  "audioSourcesRef (fst (cleanup playing)) = [\<lparr>node = 8, buffer = \<lparr>duration = 7\<rparr>\<rparr>]
   \<and> nextStartTimeRef (fst (cleanup playing)) = 12
   \<and> currentOutputTranscription
        (fst (cleanup (playing\<lparr>currentOutputTranscription := ''ami''\<rparr>))) = ''ami''
   \<and> snd (cleanup playing) =
        [TracksStop 4, NodeDisconnect 7, NodeDisconnect 2, NodeDisconnect 3,
         ContextClose 0, ContextClose 1, SessionThen 5, OnDisconnect]
   \<and> currentTime E0 = 0
   \<and> scheduled (snd (run U0 playing
        [Disconnect, Connect C0, Open 9 13, Inbound E0 (audio_chunk ''AAAA'')])) = [(12, 1)]"
proof -
  have "audioSourcesRef (fst (cleanup playing)) = [\<lparr>node = 8, buffer = \<lparr>duration = 7\<rparr>\<rparr>]
   \<and> nextStartTimeRef (fst (cleanup playing)) = 12
   \<and> currentOutputTranscription
        (fst (cleanup (playing\<lparr>currentOutputTranscription := ''ami''\<rparr>))) = ''ami''
   \<and> snd (cleanup playing) =
        [TracksStop 4, NodeDisconnect 7, NodeDisconnect 2, NodeDisconnect 3,
         ContextClose 0, ContextClose 1, SessionThen 5, OnDisconnect]"
    by (simp add: cleanup_def playing_def active_def initial_def release_def)
  moreover have "currentTime E0 = 0" by (simp add: E0_def)
  ultimately show ?thesis using next_session_delayed by blast
qed

text \<open>
  C4. Two calls of \<open>connect\<close> with no render in between both pass the guard, although
  the first has set \<open>isConnecting\<close>: four contexts are created, the microphone is
  requested twice and two channels are opened.
\<close>

theorem double_connect_opens_two_channels:
  "isConnecting (refs (fst (occurs U0 (hook_of initial) [ConnectCall (Some ''key'')])))
   \<and> snd (occurs U0 (hook_of initial)
        [ConnectCall (Some ''key''), ConnectCall (Some ''key''),
         MediaSettled (Inr ()), MediaSettled (Inr ())]) =
      [NewAudioContext 0 16000, NewAudioContext 1 24000, CreateAnalyser 0 2, CreateAnalyser 1 3,
       GetUserMedia,
       NewAudioContext 4 16000, NewAudioContext 5 24000, CreateAnalyser 4 6, CreateAnalyser 5 7,
       GetUserMedia,
       LiveConnect 9, LiveConnect 11]"
  by (simp add: occur_ConnectCall occur_MediaSettled connect_call_def connect_settled_def
      hook_of_def initial_def Let_def)

lemma connect_call_after_render:
  "closed_over_isConnected h = isConnected (refs h) \<Longrightarrow>
   closed_over_isConnecting h = isConnecting (refs h) \<Longrightarrow>
   isConnected (refs h) \<or> isConnecting (refs h) \<Longrightarrow>
   occur U (ConnectCall key) h = (h, [])"
  by (simp add: occur_ConnectCall connect_call_def)

lemma rendered_connect_opens_one_channel:
  "opened (snd (occurs U0 (hook_of initial)
        [ConnectCall (Some ''key''), Rendered, ConnectCall (Some ''key''),
         MediaSettled (Inr ()), MediaSettled (Inr ())])) = [5]"
  by (simp add: occur_ConnectCall occur_MediaSettled occur_Rendered connect_call_def
      connect_settled_def hook_of_def initial_def Let_def)

subsection \<open>Transport blob encoder\<close>

lemma s16_le_bytes:
  assumes "- 32768 \<le> p" and "p \<le> 32767"
  shows "from_le (le_bytes p @ bs) = p # from_le bs"
proof -
  have "p mod (256 * 256) = 256 * (p div 256 mod 256) + p mod 256"
    by (rule zmod_zmult2_eq) simp
  then have m: "p mod 256 + 256 * (p div 256 mod 256) = p mod 65536" by simp
  have "s16 (p mod 65536) = p"
  proof (cases "0 \<le> p")
    case True
    with assms have "p mod 65536 = p" by simp
    with assms show ?thesis by (simp add: s16_def)
  next
    case False
    with assms have "(p + 65536) mod 65536 = p + 65536"
      by (intro mod_pos_pos_trivial) simp_all
    then have "p mod 65536 = p + 65536" by simp
    with False assms show ?thesis by (simp add: s16_def)
  qed
  with m show ?thesis by (simp add: le_bytes_def)
qed

lemma pcm16_range: "- 32768 \<le> pcm16 rnd scale x \<and> pcm16 rnd scale x \<le> 32767"
  by (simp add: pcm16_def)

lemma pcm16_error:
  assumes "is_rounding rnd" and "scale \<le> 32768" and "- 1 \<le> x" and "x \<le> 1"
  shows "\<bar>real_of_int (pcm16 rnd scale x) - x * real scale\<bar> \<le> 1"
proof -
  define y where "y = x * real scale"
  define r where "r = rnd y"
  from assms(1) have e: "\<bar>real_of_int r - y\<bar> < 1" by (simp add: is_rounding_def r_def)
  have "\<bar>y\<bar> \<le> real scale"
    using assms(3,4) by (simp add: y_def abs_mult abs_le_iff mult_left_le_one_le)
  with assms(2) have yb: "- 32768 \<le> y" "y \<le> 32768" by (auto simp: abs_le_iff)
  with e have "- 32769 < real_of_int r" "real_of_int r < 32769" by linarith+
  then have rb: "- 32768 \<le> r" "r \<le> 32768" by linarith+
  have p: "pcm16 rnd scale x = (if r = 32768 then 32767 else r)"
    using rb by (auto simp: pcm16_def y_def r_def)
  show ?thesis
  proof (cases "r = 32768")
    case True
    with e have "32767 < y" by simp
    with yb p True show ?thesis by (simp add: y_def [symmetric])
  next
    case False
    with p e show ?thesis by (simp add: y_def [symmetric])
  qed
qed

lemma decode_createBlob:
  "decodePcm16 scale (createBlob rnd scale samples) =
     map (\<lambda>x. real_of_int (pcm16 rnd scale x) / real scale) samples"
proof -
  have "from_le (concat (map (\<lambda>x. le_bytes (pcm16 rnd scale x)) samples)) =
      map (pcm16 rnd scale) samples"
    by (induction samples) (simp_all add: s16_le_bytes pcm16_range)
  then show ?thesis by (simp add: decodePcm16_def createBlob_def comp_def)
qed

text \<open>
  C8. For every buffer of samples in the interval from -1 to 1, every conversion to
  integers that is off by less than one unit and every full scale up to 32768, the
  encoder yields one 16-bit value per sample, each within -32768 and 32767, two bytes
  per sample in the order of the samples; the reference decoder gives back as many
  samples, each within one quantization step (1/scale) of the original at the same
  position. The empty buffer gives the empty byte sequence.
\<close>

theorem encoder_round_trip:
  assumes "is_rounding rnd" and "0 < scale" and "scale \<le> 32768"
    and "\<forall>x \<in> set samples. - 1 \<le> x \<and> x \<le> 1"
  shows "list_all2 (\<lambda>x y. \<bar>y - x\<bar> \<le> 1 / real scale) samples
           (decodePcm16 scale (createBlob rnd scale samples))
    \<and> length (blob_data (createBlob rnd scale samples)) = 2 * length samples
    \<and> from_le (blob_data (createBlob rnd scale samples)) = map (pcm16 rnd scale) samples
    \<and> (\<forall>p \<in> set (from_le (blob_data (createBlob rnd scale samples))). - 32768 \<le> p \<and> p \<le> 32767)
    \<and> blob_data (createBlob rnd scale []) = []"
proof -
  have 1: "list_all2 (\<lambda>x y. \<bar>y - x\<bar> \<le> 1 / real scale) samples
           (decodePcm16 scale (createBlob rnd scale samples))"
    unfolding decode_createBlob list_all2_map2
  proof (rule list_all2_all_nthI)
    show "length samples = length samples" by simp
  next
    fix i
    assume "i < length samples"
    with assms(4) have b: "- 1 \<le> samples ! i" "samples ! i \<le> 1" by auto
    let ?p = "real_of_int (pcm16 rnd scale (samples ! i))"
    from pcm16_error [OF assms(1) assms(3) b]
    have "\<bar>?p - samples ! i * real scale\<bar> \<le> 1" .
    moreover have "?p / real scale - samples ! i = (?p - samples ! i * real scale) / real scale"
      using assms(2) by (simp add: field_simps)
    ultimately show "\<bar>?p / real scale - samples ! i\<bar> \<le> 1 / real scale"
      using assms(2) by (simp add: divide_right_mono)
  qed
  have 3: "from_le (blob_data (createBlob rnd scale samples)) = map (pcm16 rnd scale) samples"
    by (induction samples) (simp_all add: createBlob_def s16_le_bytes pcm16_range)
  have 2: "length (blob_data (createBlob rnd scale samples)) = 2 * length samples"
    by (induction samples) (simp_all add: createBlob_def le_bytes_def)
  have 4: "\<forall>p \<in> set (from_le (blob_data (createBlob rnd scale samples))). - 32768 \<le> p \<and> p \<le> 32767"
    unfolding 3 using pcm16_range by auto
  have 5: "blob_data (createBlob rnd scale []) = []" by (simp add: createBlob_def)
  from 1 2 3 4 5 show ?thesis by blast
qed

theorem encoder_round_trip_witness:
  "is_rounding floor
   \<and> list_all2 (\<lambda>x y. \<bar>y - x\<bar> \<le> 1 / real 32768) [1, - 1, 1 / 3]
        (decodePcm16 32768 (createBlob floor 32768 [1, - 1, 1 / 3]))
   \<and> length (blob_data (createBlob floor 32768 [1, - 1, 1 / 3])) = 2 * length [1, - 1, 1 / 3 :: real]"
proof -
  have r: "is_rounding floor"
    unfolding is_rounding_def by (intro allI) linarith
  have s: "\<forall>x \<in> set [1, - 1, 1 / 3 :: real]. - 1 \<le> x \<and> x \<le> 1" by simp
  from encoder_round_trip [OF r _ _ s, of 32768] r show ?thesis by simp
qed

end
